theory Spec2Isabelle
  imports Main
begin

section \<open>The chat widget and its loader\<close>

text \<open>
  A shallow embedding of the two scripts of the repository: the self-hosted custom
  element \<^verbatim>\<open>VapiCustomWidget\<close> (vapi-custom-widget.js) and the attribute-driven
  loader (its \<^verbatim>\<open>init\<close>). Object state is passed explicitly, every console call,
  dispatched event and network request is recorded in a list of effects, and what the
  browser decides (the contents of local storage, the outcome of \<^verbatim>\<open>fetch\<close>, the
  chunks of the response body, the result of \<^verbatim>\<open>JSON.parse\<close>) is an argument.
\<close>

subsection \<open>Strings\<close>

text \<open>
  Strings are lists of \<^typ>\<open>char\<close>, read as the code units below 256. The white space
  that \<^verbatim>\<open>String.prototype.trim\<close> removes is, in that range, TAB, LF, VT, FF, CR, SP
  and NBSP.
\<close>

definition is_white_space :: "char \<Rightarrow> bool" where
  "is_white_space c \<longleftrightarrow>
     c \<in> {CHR 0x09, CHR 0x0A, CHR 0x0B, CHR 0x0C, CHR 0x0D, CHR 0x20, CHR 0xA0}"

definition trim :: "string \<Rightarrow> string" where
  "trim s = rev (dropWhile is_white_space (rev (dropWhile is_white_space s)))"

text \<open>\<^verbatim>\<open>s.split('\n')\<close>: the pieces between line feeds; never the empty list.\<close>

fun split_nl :: "string \<Rightarrow> string list" where
  "split_nl [] = [[]]"
| "split_nl (c # cs) =
     (if c = CHR 0x0A then [] # split_nl cs
      else (case split_nl cs of [] \<Rightarrow> [[c]] | l # ls \<Rightarrow> (c # l) # ls))"

definition startsWith :: "string \<Rightarrow> string \<Rightarrow> bool" where
  "startsWith s p \<longleftrightarrow> take (length p) s = p"

definition slice :: "string \<Rightarrow> nat \<Rightarrow> string" where
  "slice s n = drop n s"

subsection \<open>JavaScript values\<close>

text \<open>
  The values \<^verbatim>\<open>JSON.parse\<close> can return, and \<^verbatim>\<open>undefined\<close> for a property that is
  not there. Numbers are floating point in the browser; here they are an abstract type
  \<open>'n\<close>, and the platform says which of them are truthy and how they print. An object
  is its list of own properties in insertion order; a later binding of a name wins.
\<close>

datatype 'n jsval =
    JUndefined
  | JNull
  | JBool bool
  | JNum 'n
  | JStr string
  | JArr "'n jsval list"
  | JObj "(string \<times> 'n jsval) list"

datatype js_error =
    SyntaxError
  | TypeError
  | SecurityError
  | NetworkError
  | ApiError nat
  | StreamError

subsection \<open>The rendered shadow tree\<close>

text \<open>
  \<^verbatim>\<open>render\<close> serialises the whole widget into \<^verbatim>\<open>shadowRoot.innerHTML\<close>, a
  template with the configured texts interpolated as they are. The model keeps the
  instance of the template: whether the window has the class \<^verbatim>\<open>open\<close>, the header
  and footer texts, which of the two surfaces was emitted (\<^verbatim>\<open>renderConsentScreen\<close> or
  \<^verbatim>\<open>renderChatArea\<close>, with its messages and typing indicator), every text that was
  interpolated without escaping, and the text \<^verbatim>\<open>updateStreamingMessage\<close> wrote since.
  The constant parts of the style sheet and the icons are left out. Before the first
  \<^verbatim>\<open>render\<close> the shadow root is empty.
\<close>

datatype role = user | assistant

record message =
  role :: role
  content :: string

datatype surface =
    ConsentScreen string
  | ChatArea "message list" bool

record shadow =
  window_open :: bool
  header_title :: "string option"
  header_logo :: "string option"
  body :: surface
  chat_footer :: "string option"
  interpolated :: "string list"
  streaming :: "string option"

text \<open>
  An interpolated text stays text when it cannot open a tag and cannot close the
  quoted attribute value it stands in: it has no \<^verbatim>\<open><\<close> and no double quote. A tree
  is plain when every interpolated text is; then it has the elements of the template
  and no others.
\<close>

definition markup_free :: "string \<Rightarrow> bool" where
  "markup_free t \<longleftrightarrow> CHR ''<'' \<notin> set t \<and> CHR 0x22 \<notin> set t"

definition plain :: "shadow \<Rightarrow> bool" where
  "plain d \<longleftrightarrow> list_all markup_free (interpolated d)"

fun is_chat_area :: "surface \<Rightarrow> bool" where
  "is_chat_area (ConsentScreen t) = False"
| "is_chat_area (ChatArea ms typing) = True"

subsection \<open>The platform\<close>

text \<open>
  What the browser contributes: \<^verbatim>\<open>JSON.parse\<close> (\<open>None\<close> when it throws), the
  truthiness and the printing of numbers, and, for a tree that is not plain, whether
  the tree its HTML parser builds from the template instance has an element of a class.
\<close>

record 'n platform =
  JSON_parse :: "string \<Rightarrow> 'n jsval option"
  Number_truthy :: "'n \<Rightarrow> bool"
  Number_toString :: "'n \<Rightarrow> string"
  markup_has :: "shadow \<Rightarrow> string \<Rightarrow> bool"

text \<open>Truthiness, as \<^verbatim>\<open>if (v)\<close> and \<^verbatim>\<open>!v\<close> test it.\<close>

fun truthy :: "'n platform \<Rightarrow> 'n jsval \<Rightarrow> bool" where
  "truthy P JUndefined = False"
| "truthy P JNull = False"
| "truthy P (JBool b) = b"
| "truthy P (JNum n) = Number_truthy P n"
| "truthy P (JStr s) = (s \<noteq> [])"
| "truthy P (JArr xs) = True"
| "truthy P (JObj ps) = True"

text \<open>
  Reading the property \<^verbatim>\<open>data.id\<close> or \<^verbatim>\<open>data.delta\<close>: a TypeError on
  \<^verbatim>\<open>null\<close>, the own property of an object, and \<^verbatim>\<open>undefined\<close> on every other value
  (no prototype defines these two names).
\<close>

definition own_property :: "(string \<times> 'n jsval) list \<Rightarrow> string \<Rightarrow> 'n jsval" where
  "own_property ps k = (case map_of (rev ps) k of None \<Rightarrow> JUndefined | Some v \<Rightarrow> v)"

fun js_get :: "'n jsval \<Rightarrow> string \<Rightarrow> js_error + 'n jsval" where
  "js_get JUndefined k = Inl TypeError"
| "js_get JNull k = Inl TypeError"
| "js_get (JObj ps) k = Inr (own_property ps k)"
| "js_get v k = Inr JUndefined"

text \<open>
  The string that \<^verbatim>\<open>fullContent += v\<close> appends, or the TypeError it throws. An
  object prints through the \<^verbatim>\<open>toString\<close> it inherits; an own property of that name
  (never callable in a parsed value) hides it, and the conversion throws. An array
  prints its elements joined by commas, with \<^verbatim>\<open>null\<close> and \<^verbatim>\<open>undefined\<close> elements
  printed as nothing, and throws where an element does.
\<close>

fun join_comma :: "(js_error + string) list \<Rightarrow> js_error + string" where
  "join_comma [] = Inr []"
| "join_comma (r # rs) =
     (case r of
        Inl e \<Rightarrow> Inl e
      | Inr s \<Rightarrow>
          (case join_comma rs of
             Inl e \<Rightarrow> Inl e
           | Inr t \<Rightarrow> Inr (if rs = [] then s else s @ '','' @ t)))"

fun toString :: "'n platform \<Rightarrow> 'n jsval \<Rightarrow> js_error + string" where
  "toString P JUndefined = Inr ''undefined''"
| "toString P JNull = Inr ''null''"
| "toString P (JBool b) = Inr (if b then ''true'' else ''false'')"
| "toString P (JNum n) = Inr (Number_toString P n)"
| "toString P (JStr s) = Inr s"
| "toString P (JArr xs) =
     join_comma (map (\<lambda>x. if x = JNull \<or> x = JUndefined then Inr [] else toString P x) xs)"
| "toString P (JObj ps) =
     (if map_of ps ''toString'' \<noteq> None then Inl TypeError else Inr ''[object Object]'')"

text \<open>
  \<^verbatim>\<open>shadowRoot.querySelector\<close> for the two classes the modelled methods look up. In
  a plain tree the chat area holds the message list and the input box, and the consent
  screen holds neither; for any other tree the platform answers.
\<close>

fun has_chat_messages :: "'n platform \<Rightarrow> shadow option \<Rightarrow> bool" where
  "has_chat_messages P None = False"
| "has_chat_messages P (Some d) =
     (if plain d then is_chat_area (body d) else markup_has P d ''chat-messages'')"

fun has_chat_input :: "'n platform \<Rightarrow> shadow option \<Rightarrow> bool" where
  "has_chat_input P None = False"
| "has_chat_input P (Some d) =
     (if plain d then is_chat_area (body d) else markup_has P d ''chat-input'')"

subsection \<open>Configuration of the custom element\<close>

record config =
  publicKey :: "string option"
  assistantId :: "string option"
  assistantOverrides :: "string option"
  theme :: "string option"
  position :: "string option"
  widget_size :: "string option"
  radius :: "string option"
  baseColor :: "string option"
  accentColor :: "string option"
  buttonBaseColor :: "string option"
  buttonAccentColor :: "string option"
  mainLabel :: "string option"
  emptyChatMessage :: "string option"
  header :: "string option"
  footer :: "string option"
  logo :: "string option"
  requireConsent :: bool
  termsContent :: "string option"
  localStorageKey :: "string option"

text \<open>
  A string or \<^verbatim>\<open>null\<close> is \<^typ>\<open>string option\<close>. \<^verbatim>\<open>a || b\<close> on such values takes
  \<open>b\<close> when \<open>a\<close> is \<^verbatim>\<open>null\<close> or the empty string.
\<close>

fun str_truthy :: "string option \<Rightarrow> bool" where
  "str_truthy None = False"
| "str_truthy (Some s) = (s \<noteq> [])"

definition or_else :: "string option \<Rightarrow> string option \<Rightarrow> string option" where
  "or_else a b = (if str_truthy a then a else b)"

fun text_of :: "string option \<Rightarrow> string" where
  "text_of None = ''null''"
| "text_of (Some s) = s"

subsection \<open>Local storage\<close>

text \<open>
  The browser's local storage: its items, and whether reading and writing work at all
  (access can be blocked, a write can exceed the quota). A failing call throws.
\<close>

record storage =
  items :: "string \<rightharpoonup> string"
  readable :: bool
  writable :: bool

definition getItem :: "storage \<Rightarrow> string \<Rightarrow> js_error + string option" where
  "getItem st k = (if readable st then Inr (items st k) else Inl SecurityError)"

definition setItem :: "storage \<Rightarrow> string \<Rightarrow> string \<Rightarrow> js_error + storage" where
  "setItem st k v =
     (if writable st then Inr (st\<lparr>items := (items st)(k \<mapsto> v)\<rparr>) else Inl SecurityError)"

subsection \<open>Effects\<close>

record 'n payload =
  payload_assistantId :: "string option"
  payload_input :: string
  payload_stream :: bool
  payload_previousChatId :: "'n jsval option"
  payload_assistantOverrides :: "'n jsval option"

record 'n request =
  url :: string
  authorization :: string
  request_body :: "'n payload"

datatype event =
    ChatOpen
  | ChatClose
  | MessageEvent role string
  | ErrorEvent js_error

datatype 'n effect =
    Dispatch event
  | ConsoleError string
  | ConsoleWarn string
  | Fetch "'n request"
  | FocusInputLater

text \<open>What \<^verbatim>\<open>fetch\<close> and the body reader deliver: a rejected promise, or a response
  with its status and the decoded chunks of its body, which ends or fails.\<close>

datatype body_end = Done | ReadFailed

datatype fetch_outcome =
    Rejected
  | Responded nat "string list" body_end

definition response_ok :: "nat \<Rightarrow> bool" where
  "response_ok status \<longleftrightarrow> 200 \<le> status \<and> status \<le> 299"

text \<open>The statuses whose response has no body: \<^verbatim>\<open>response.body\<close> is \<^verbatim>\<open>null\<close>.\<close>

definition null_body :: "nat \<Rightarrow> bool" where
  "null_body status \<longleftrightarrow> status \<in> {101, 103, 204, 205, 304}"

subsection \<open>The custom element\<close>

record 'n widget =
  attrs :: "string \<rightharpoonup> string"
  isOpen :: bool
  messages :: "message list"
  isLoading :: bool
  previousChatId :: "'n jsval"
  consentGiven :: bool
  shadowRoot :: "shadow option"

definition constructor :: "(string \<rightharpoonup> string) \<Rightarrow> 'n widget" where
  "constructor a =
     \<lparr>attrs = a, isOpen = False, messages = [], isLoading = False,
      previousChatId = JNull, consentGiven = False, shadowRoot = None\<rparr>"

definition observedAttributes :: "string list" where
  "observedAttributes =
     [''public-key'', ''assistant-id'', ''assistant-overrides'',
      ''theme'', ''position'', ''size'', ''radius'',
      ''base-color'', ''accent-color'', ''button-base-color'', ''button-accent-color'',
      ''main-label'', ''empty-chat-message'',
      ''header'', ''footer'', ''logo'',
      ''require-consent'', ''terms-content'', ''local-storage-key'']"

definition getAttr :: "'n widget \<Rightarrow> string \<Rightarrow> string option \<Rightarrow> string option" where
  "getAttr w name defaultValue = or_else (attrs w name) defaultValue"

definition getBoolAttr :: "'n widget \<Rightarrow> string \<Rightarrow> bool" where
  "getBoolAttr w name \<longleftrightarrow> attrs w name \<noteq> None \<and> attrs w name \<noteq> Some ''false''"

definition getConfig :: "'n widget \<Rightarrow> config" where
  "getConfig w =
     \<lparr>publicKey = getAttr w ''public-key'' None,
      assistantId = getAttr w ''assistant-id'' None,
      assistantOverrides = getAttr w ''assistant-overrides'' None,
      theme = getAttr w ''theme'' (Some ''light''),
      position = getAttr w ''position'' (Some ''bottom-right''),
      widget_size = getAttr w ''size'' (Some ''full''),
      radius = getAttr w ''radius'' (Some ''medium''),
      baseColor = getAttr w ''base-color'' None,
      accentColor = getAttr w ''accent-color'' (Some ''#14B8A6''),
      buttonBaseColor = getAttr w ''button-base-color'' (Some ''#000000''),
      buttonAccentColor = getAttr w ''button-accent-color'' (Some ''#FFFFFF''),
      mainLabel = getAttr w ''main-label'' (Some ''Chat with AI''),
      emptyChatMessage = getAttr w ''empty-chat-message'' (Some ''Hi! How can I help you today?''),
      header = getAttr w ''header'' None,
      footer = getAttr w ''footer'' None,
      logo = getAttr w ''logo'' None,
      requireConsent = getBoolAttr w ''require-consent'',
      termsContent = getAttr w ''terms-content''
        (Some ''By using this chat, you agree to our terms of service.''),
      localStorageKey = getAttr w ''local-storage-key'' (Some ''vapi_widget_consent'')\<rparr>"

text \<open>\<^verbatim>\<open>checkConsent\<close>. A key that is \<^verbatim>\<open>null\<close> would be looked up as the string
  \<^verbatim>\<open>"null"\<close>; the default makes it a string always.\<close>

definition checkConsent :: "'n widget \<Rightarrow> storage \<Rightarrow> 'n widget" where
  "checkConsent w st =
     (let config = getConfig w in
      if \<not> requireConsent config then w\<lparr>consentGiven := True\<rparr>
      else (case getItem st (text_of (localStorageKey config)) of
              Inr v \<Rightarrow> w\<lparr>consentGiven := (v = Some ''true'')\<rparr>
            | Inl e \<Rightarrow> w\<lparr>consentGiven := False\<rparr>))"

definition renderConsentScreen :: "config \<Rightarrow> surface" where
  "renderConsentScreen config = ConsentScreen (text_of (termsContent config))"

definition renderChatArea :: "'n widget \<Rightarrow> config \<Rightarrow> surface" where
  "renderChatArea w config = ChatArea (messages w) (isLoading w)"

text \<open>
  The configured values \<^verbatim>\<open>generateStyles\<close> interpolates into the style sheet: the
  accent colour, the background (the base colour, or the theme's own), the accent colour
  again for the user's messages, and the two button colours. Radius and position go
  through the constant tables.
\<close>

definition generateStyles :: "config \<Rightarrow> string list" where
  "generateStyles config =
     [text_of (accentColor config),
      text_of (or_else (baseColor config)
        (Some (if theme config = Some ''dark'' then ''#1a1a1a'' else ''#ffffff''))),
      text_of (accentColor config),
      text_of (buttonBaseColor config),
      text_of (buttonAccentColor config)]"

text \<open>
  The texts a surface interpolates: the terms on the consent screen, the greeting in a
  chat area without messages. The contents of messages go through \<^verbatim>\<open>escapeHtml\<close>.
\<close>

definition surface_texts :: "'n widget \<Rightarrow> config \<Rightarrow> string list" where
  "surface_texts w config =
     (if requireConsent config \<and> \<not> consentGiven w then [text_of (termsContent config)]
      else if messages w = [] then [text_of (emptyChatMessage config)]
      else [])"

definition render :: "'n widget \<Rightarrow> 'n widget" where
  "render w =
     (let config = getConfig w in
      w\<lparr>shadowRoot := Some
         \<lparr>window_open = isOpen w,
          header_title = or_else (header config) (mainLabel config),
          header_logo = (if str_truthy (logo config) then logo config else None),
          body = (if requireConsent config \<and> \<not> consentGiven w
                  then renderConsentScreen config
                  else renderChatArea w config),
          chat_footer = (if str_truthy (footer config) then footer config else None),
          interpolated =
            generateStyles config
            @ (if str_truthy (logo config) then [text_of (logo config)] else [])
            @ [text_of (or_else (header config) (mainLabel config))]
            @ surface_texts w config
            @ (if str_truthy (footer config) then [text_of (footer config)] else []),
          streaming = None\<rparr>\<rparr>)"

definition giveConsent :: "'n widget \<Rightarrow> storage \<Rightarrow> 'n widget \<times> storage \<times> 'n effect list" where
  "giveConsent w st =
     (let config = getConfig w;
          w1 = w\<lparr>consentGiven := True\<rparr>
      in case setItem st (text_of (localStorageKey config)) ''true'' of
           Inr st' \<Rightarrow> (render w1, st', [])
         | Inl e \<Rightarrow> (render w1, st, [ConsoleWarn ''Could not save consent to localStorage'']))"

definition connectedCallback :: "'n widget \<Rightarrow> storage \<Rightarrow> 'n widget" where
  "connectedCallback w st = checkConsent (render w) st"

definition attributeChangedCallback ::
    "'n widget \<Rightarrow> string \<Rightarrow> string option \<Rightarrow> string option \<Rightarrow> 'n widget" where
  "attributeChangedCallback w name oldValue newValue =
     (if oldValue \<noteq> newValue then render w else w)"

text \<open>Setting or removing an attribute of the element: the browser stores it and
  calls back for an observed name.\<close>

definition setAttribute :: "'n widget \<Rightarrow> string \<Rightarrow> string option \<Rightarrow> 'n widget" where
  "setAttribute w name newValue =
     (let oldValue = attrs w name;
          w1 = w\<lparr>attrs := (attrs w)(name := newValue)\<rparr>
      in if name \<in> set observedAttributes
         then attributeChangedCallback w1 name oldValue newValue else w1)"

definition toggleChat :: "'n widget \<Rightarrow> bool option \<Rightarrow> 'n widget \<times> 'n effect list" where
  "toggleChat w state =
     (let w1 = render (w\<lparr>isOpen := (case state of Some s \<Rightarrow> s | None \<Rightarrow> \<not> isOpen w)\<rparr>)
      in (w1, Dispatch (if isOpen w1 then ChatOpen else ChatClose)
              # (if isOpen w1 then [FocusInputLater] else [])))"

subsection \<open>The streaming response handler\<close>

text \<open>
  \<^verbatim>\<open>updateStreamingMessage\<close> writes into the rendered tree directly: it needs the
  message list, and there it takes the place of the typing indicator with the streaming
  message, whose text it sets.
\<close>

fun updateStreamingMessage :: "'n platform \<Rightarrow> shadow option \<Rightarrow> string \<Rightarrow> shadow option" where
  "updateStreamingMessage P None c = None"
| "updateStreamingMessage P (Some d) c =
     (if has_chat_messages P (Some d) then Some (d\<lparr>streaming := Some c\<rparr>) else Some d)"

text \<open>The local variables of the read loop, and the tree it writes into.\<close>

record 'n stream_state =
  fullContent :: string
  chatId :: "'n jsval"
  dom :: "shadow option"

text \<open>
  The body of \<^verbatim>\<open>for (const line of lines)\<close>. The \<^verbatim>\<open>try\<close> block ends at the
  first throw (of \<^verbatim>\<open>JSON.parse\<close>, of a property read on \<^verbatim>\<open>null\<close>, or of the
  conversion of the delta to a string), and the \<^verbatim>\<open>catch\<close> keeps what was assigned
  before it.
\<close>

definition handle_line :: "'n platform \<Rightarrow> string \<Rightarrow> 'n stream_state \<Rightarrow> 'n stream_state" where
  "handle_line P line s =
     (if startsWith line ''data: '' then
        (case JSON_parse P (slice line 6) of
           None \<Rightarrow> s
         | Some data \<Rightarrow>
             (case js_get data ''id'' of
                Inl e \<Rightarrow> s
              | Inr i \<Rightarrow>
                  let s1 = (if truthy P i \<and> \<not> truthy P (chatId s) then s\<lparr>chatId := i\<rparr> else s)
                  in (case js_get data ''delta'' of
                        Inl e \<Rightarrow> s1
                      | Inr d \<Rightarrow>
                          if truthy P d then
                            (case toString P d of
                               Inl e \<Rightarrow> s1
                             | Inr t \<Rightarrow>
                                 let c = fullContent s1 @ t
                                 in s1\<lparr>fullContent := c,
                                      dom := updateStreamingMessage P (dom s1) c\<rparr>)
                          else s1)))
      else s)"

text \<open>\<^verbatim>\<open>chunk.split('\n').filter(line => line.trim())\<close>\<close>

definition chunk_lines :: "string \<Rightarrow> string list" where
  "chunk_lines chunk = filter (\<lambda>line. trim line \<noteq> []) (split_nl chunk)"

fun for_lines :: "'n platform \<Rightarrow> string list \<Rightarrow> 'n stream_state \<Rightarrow> 'n stream_state" where
  "for_lines P [] s = s"
| "for_lines P (line # lines) s = for_lines P lines (handle_line P line s)"

text \<open>
  \<^verbatim>\<open>while (true)\<close> over the chunks the reader delivers until it reports
  \<^verbatim>\<open>done\<close>. The body is a finite list of chunks here; a response that never ends
  leaves \<^verbatim>\<open>sendMessage\<close> suspended in the state \<open>sendMessage_begin\<close> returns.
\<close>

fun read_loop :: "'n platform \<Rightarrow> string list \<Rightarrow> 'n stream_state \<Rightarrow> 'n stream_state" where
  "read_loop P [] s = s"
| "read_loop P (chunk # chunks) s = read_loop P chunks (for_lines P (chunk_lines chunk) s)"

text \<open>The initial variables of the read loop in \<^verbatim>\<open>callVapiAPI\<close>.\<close>

definition loop_start :: "shadow option \<Rightarrow> 'n stream_state" where
  "loop_start d = \<lparr>fullContent = [], chatId = JNull, dom = d\<rparr>"

text \<open>The request \<^verbatim>\<open>callVapiAPI\<close> builds before it awaits \<^verbatim>\<open>fetch\<close>.\<close>

definition build_request ::
    "'n platform \<Rightarrow> 'n widget \<Rightarrow> string \<Rightarrow> config \<Rightarrow> 'n request \<times> 'n effect list" where
  "build_request P w message config =
     (let prev = (if truthy P (previousChatId w) then Some (previousChatId w) else None);
          parsed = (if str_truthy (assistantOverrides config)
                    then JSON_parse P (text_of (assistantOverrides config)) else None);
          warn = (if str_truthy (assistantOverrides config) \<and> parsed = None
                  then [ConsoleWarn ''Invalid assistant-overrides JSON''] else [])
      in (\<lparr>url = ''https://api.vapi.ai/chat'',
           authorization = ''Bearer '' @ text_of (publicKey config),
           request_body =
             \<lparr>payload_assistantId = assistantId config,
              payload_input = message,
              payload_stream = True,
              payload_previousChatId = prev,
              payload_assistantOverrides = parsed\<rparr>\<rparr>,
          warn))"

definition callVapiAPI ::
    "'n platform \<Rightarrow> 'n widget \<Rightarrow> string \<Rightarrow> config \<Rightarrow> fetch_outcome
      \<Rightarrow> 'n widget \<times> 'n effect list \<times> (js_error + string \<times> 'n jsval)" where
  "callVapiAPI P w message config outcome =
     (let (req, warn) = build_request P w message config;
          effects = warn @ [Fetch req]
      in case outcome of
           Rejected \<Rightarrow> (w, effects, Inl NetworkError)
         | Responded status chunks ending \<Rightarrow>
             if \<not> response_ok status then (w, effects, Inl (ApiError status))
             else if null_body status then (w, effects, Inl TypeError)
             else
               let s = read_loop P chunks (loop_start (shadowRoot w));
                   w1 = w\<lparr>shadowRoot := dom s\<rparr>
               in (case ending of
                     Done \<Rightarrow> (w1, effects, Inr (fullContent s, chatId s))
                   | ReadFailed \<Rightarrow> (w1, effects, Inl StreamError)))"

subsection \<open>Sending a message\<close>

text \<open>
  \<^verbatim>\<open>sendMessage\<close> up to its \<^verbatim>\<open>await\<close>: the guards, the user message, the loading
  flag, the render and the first event. \<open>typed\<close> is the value of the input box, a
  string. (In a tree that is not plain the element found may have no value; then
  \<^verbatim>\<open>trim\<close> throws before any effect, and there is no \<open>typed\<close> for it.) The result
  says whether a call of the API follows, with which message and configuration.
\<close>

definition sendMessage_begin ::
    "'n platform \<Rightarrow> 'n widget \<Rightarrow> string
      \<Rightarrow> 'n widget \<times> 'n effect list \<times> (string \<times> config) option" where
  "sendMessage_begin P w typed =
     (if \<not> has_chat_input P (shadowRoot w) then (w, [], None)
      else
        let message = trim typed in
        if message = [] \<or> isLoading w then (w, [], None)
        else
          let config = getConfig w in
          if \<not> str_truthy (publicKey config)
          then (w, [ConsoleError ''VAPI Widget: public-key is required''], None)
          else if \<not> str_truthy (assistantId config)
          then (w, [ConsoleError ''VAPI Widget: assistant-id is required''], None)
          else
            (render (w\<lparr>messages := messages w @ [\<lparr>role = user, content = message\<rparr>],
                       isLoading := True\<rparr>),
             [Dispatch (MessageEvent user message)],
             Some (message, config)))"

text \<open>What follows the \<^verbatim>\<open>await\<close>: the \<^verbatim>\<open>try\<close> branch on a response, the
  \<^verbatim>\<open>catch\<close> branch on a throw, then the loading flag is cleared and the widget
  rendered.\<close>

definition sendMessage_end ::
    "'n platform \<Rightarrow> 'n widget \<Rightarrow> (js_error + string \<times> 'n jsval) \<Rightarrow> 'n widget \<times> 'n effect list" where
  "sendMessage_end P w result =
     (let (w1, effects) =
            (case result of
               Inr (c, i) \<Rightarrow>
                 (w\<lparr>messages := messages w @ [\<lparr>role = assistant, content = c\<rparr>],
                    previousChatId := (if truthy P i then i else previousChatId w)\<rparr>,
                  [Dispatch (MessageEvent assistant c)])
             | Inl e \<Rightarrow>
                 (w\<lparr>messages := messages w @
                      [\<lparr>role = assistant,
                        content = ''Sorry, I encountered an error. Please try again.''\<rparr>]\<rparr>,
                  [ConsoleError ''VAPI Widget Error:'', Dispatch (ErrorEvent e)]))
      in (render (w1\<lparr>isLoading := False\<rparr>), effects))"

definition sendMessage ::
    "'n platform \<Rightarrow> 'n widget \<Rightarrow> string \<Rightarrow> fetch_outcome \<Rightarrow> 'n widget \<times> 'n effect list" where
  "sendMessage P w typed outcome =
     (case sendMessage_begin P w typed of
        (w1, e1, None) \<Rightarrow> (w1, e1)
      | (w1, e1, Some (message, config)) \<Rightarrow>
          let (w2, e2, result) = callVapiAPI P w1 message config outcome;
              (w3, e3) = sendMessage_end P w2 result
          in (w3, e1 @ e2 @ e3))"

subsection \<open>Runs of the element\<close>

text \<open>
  What can happen to a connected element, from the page or from the user: the buttons
  and the input box call \<^verbatim>\<open>toggleChat\<close>, \<^verbatim>\<open>sendMessage\<close> and \<^verbatim>\<open>giveConsent\<close>, the
  browser calls \<^verbatim>\<open>connectedCallback\<close> and reports attribute changes. A run threads
  the element and the local storage through a list of such operations and collects
  the effects in order.
\<close>

datatype operation =
    ToggleChat "bool option"
  | SendMessage string fetch_outcome
  | GiveConsent
  | ConnectedCallback
  | SetAttribute string "string option"

fun step ::
    "'n platform \<Rightarrow> operation \<Rightarrow> 'n widget \<times> storage \<Rightarrow> ('n widget \<times> storage) \<times> 'n effect list" where
  "step P (ToggleChat state) (w, st) = (let (w1, e) = toggleChat w state in ((w1, st), e))"
| "step P (SendMessage typed outcome) (w, st) =
     (let (w1, e) = sendMessage P w typed outcome in ((w1, st), e))"
| "step P GiveConsent (w, st) = (let (w1, st1, e) = giveConsent w st in ((w1, st1), e))"
| "step P ConnectedCallback (w, st) = ((connectedCallback w st, st), [])"
| "step P (SetAttribute name v) (w, st) = ((setAttribute w name v, st), [])"

fun run ::
    "'n platform \<Rightarrow> operation list \<Rightarrow> 'n widget \<times> storage \<Rightarrow> ('n widget \<times> storage) \<times> 'n effect list" where
  "run P [] c = (c, [])"
| "run P (x # xs) c =
     (let (c1, e1) = step P x c; (c2, e2) = run P xs c1 in (c2, e1 @ e2))"

fun events_of :: "'n effect list \<Rightarrow> event list" where
  "events_of [] = []"
| "events_of (Dispatch e # es) = e # events_of es"
| "events_of (x # es) = events_of es"

fun requests_of :: "'n effect list \<Rightarrow> 'n request list" where
  "requests_of [] = []"
| "requests_of (Fetch r # es) = r # requests_of es"
| "requests_of (x # es) = requests_of es"

subsection \<open>The loader\<close>

text \<open>
  The loader reads its configuration from the data attributes of its own script tag,
  each with \<^verbatim>\<open>getAttribute(..) || fallback\<close>.
\<close>

definition data_attr :: "(string \<rightharpoonup> string) \<Rightarrow> string \<Rightarrow> string \<Rightarrow> string" where
  "data_attr a name fallback = text_of (or_else (a name) (Some fallback))"

record loader_config =
  ld_publicKey :: string
  ld_assistantId :: string
  ld_mode :: string
  ld_theme :: string
  ld_position :: string
  ld_size :: string
  ld_radius :: string
  ld_baseColor :: string
  ld_accentColor :: string
  ld_buttonBaseColor :: string
  ld_buttonAccentColor :: string
  ld_mainLabel :: string
  ld_startButtonText :: string
  ld_endButtonText :: string
  ld_emptyChatMessage :: string
  ld_emptyVoiceMessage :: string
  ld_placeholder :: string
  ld_assistantOverrides :: string
  ld_requireConsent :: string
  ld_termsContent :: string
  ld_showTranscript :: string
  ld_logo :: string
  ld_logoSize :: string
  ld_logoAlt :: string
  ld_headerTitle :: string
  ld_footer :: string
  ld_footerLink :: string
  ld_footerLinkText :: string

definition loader_config_of :: "(string \<rightharpoonup> string) \<Rightarrow> loader_config" where
  "loader_config_of a =
     \<lparr>ld_publicKey = data_attr a ''data-public-key'' [],
      ld_assistantId = data_attr a ''data-assistant-id'' [],
      ld_mode = data_attr a ''data-mode'' ''chat'',
      ld_theme = data_attr a ''data-theme'' ''light'',
      ld_position = data_attr a ''data-position'' ''bottom-right'',
      ld_size = data_attr a ''data-size'' ''full'',
      ld_radius = data_attr a ''data-radius'' ''medium'',
      ld_baseColor = data_attr a ''data-base-color'' [],
      ld_accentColor = data_attr a ''data-accent-color'' (data_attr a ''data-primary-color'' []),
      ld_buttonBaseColor = data_attr a ''data-button-base-color'' [],
      ld_buttonAccentColor = data_attr a ''data-button-accent-color'' [],
      ld_mainLabel = data_attr a ''data-main-label'' (data_attr a ''data-header-title'' []),
      ld_startButtonText = data_attr a ''data-start-button-text'' [],
      ld_endButtonText = data_attr a ''data-end-button-text'' [],
      ld_emptyChatMessage =
        data_attr a ''data-empty-chat-message'' (data_attr a ''data-welcome-message'' []),
      ld_emptyVoiceMessage = data_attr a ''data-empty-voice-message'' [],
      ld_placeholder = data_attr a ''data-placeholder'' [],
      ld_assistantOverrides = data_attr a ''data-assistant-overrides'' [],
      ld_requireConsent = data_attr a ''data-require-consent'' [],
      ld_termsContent = data_attr a ''data-terms-content'' [],
      ld_showTranscript = data_attr a ''data-show-transcript'' [],
      ld_logo = data_attr a ''data-logo'' [],
      ld_logoSize = data_attr a ''data-logo-size'' ''32'',
      ld_logoAlt = data_attr a ''data-logo-alt'' ''Logo'',
      ld_headerTitle = data_attr a ''data-header-title'' [],
      ld_footer = data_attr a ''data-footer'' [],
      ld_footerLink = data_attr a ''data-footer-link'' [],
      ld_footerLinkText = data_attr a ''data-footer-link-text'' []\<rparr>"

text \<open>\<^verbatim>\<open>if (v) widget.setAttribute(name, v)\<close>\<close>

definition set_if :: "string \<Rightarrow> string \<Rightarrow> (string \<times> string) list" where
  "set_if name v = (if v \<noteq> [] then [(name, v)] else [])"

text \<open>The attributes \<^verbatim>\<open>createVapiWidget\<close> sets on the element it appends to the
  page, in order.\<close>

definition createVapiWidget :: "loader_config \<Rightarrow> (string \<times> string) list" where
  "createVapiWidget c =
     [(''public-key'', ld_publicKey c)]
     @ set_if ''assistant-id'' (ld_assistantId c)
     @ set_if ''mode'' (ld_mode c)
     @ set_if ''theme'' (ld_theme c)
     @ set_if ''position'' (ld_position c)
     @ set_if ''size'' (ld_size c)
     @ set_if ''radius'' (ld_radius c)
     @ set_if ''base-color'' (ld_baseColor c)
     @ set_if ''accent-color'' (ld_accentColor c)
     @ set_if ''button-base-color'' (ld_buttonBaseColor c)
     @ set_if ''button-accent-color'' (ld_buttonAccentColor c)
     @ set_if ''main-label'' (ld_mainLabel c)
     @ set_if ''start-button-text'' (ld_startButtonText c)
     @ set_if ''end-button-text'' (ld_endButtonText c)
     @ set_if ''empty-chat-message'' (ld_emptyChatMessage c)
     @ set_if ''empty-voice-message'' (ld_emptyVoiceMessage c)
     @ set_if ''placeholder'' (ld_placeholder c)
     @ set_if ''assistant-overrides'' (ld_assistantOverrides c)
     @ set_if ''require-consent'' (ld_requireConsent c)
     @ set_if ''terms-content'' (ld_termsContent c)
     @ set_if ''show-transcript'' (ld_showTranscript c)"

text \<open>
  What \<^verbatim>\<open>init\<close> does to the page, in order. Loading the vendor script is a network
  call; it succeeds or fails, and a failure is caught and logged. The injection of
  logo and footer into the vendor's tree is one effect here.
\<close>

datatype loader_effect =
    LogError string
  | LogInfo string
  | InjectStyles
  | LoadScript string
  | Wait nat
  | CreateElement string "(string \<times> string) list"
  | InjectCustomElements

definition init :: "loader_config \<Rightarrow> bool \<Rightarrow> loader_effect list" where
  "init c script_loads =
     (if ld_publicKey c = [] then [LogError ''VAPI Custom Widget: data-public-key is required'']
      else if ld_assistantId c = []
      then [LogError ''VAPI Custom Widget: data-assistant-id is required'']
      else
        [InjectStyles,
         LoadScript ''https://unpkg.com/@vapi-ai/client-sdk-react/dist/embed/widget.umd.js'']
        @ (if script_loads then
             [Wait 100, CreateElement ''vapi-widget'' (createVapiWidget c)]
             @ (if ld_logo c \<noteq> [] \<or> ld_footer c \<noteq> [] then [InjectCustomElements] else [])
             @ [LogInfo ''VAPI Custom Widget initialized'']
           else [LogError ''VAPI Custom Widget error:'']))"

fun is_network_call :: "loader_effect \<Rightarrow> bool" where
  "is_network_call (LoadScript u) = True"
| "is_network_call e = False"

fun is_create_element :: "loader_effect \<Rightarrow> bool" where
  "is_create_element (CreateElement t a) = True"
| "is_create_element e = False"

subsection \<open>A reference platform\<close>

text \<open>
  The element is modelled for every platform. To run it on concrete streams, here is
  one platform: a reader for JSON texts with integer numbers, standing for
  \<^verbatim>\<open>JSON.parse\<close>, and integers printed in decimal. It returns \<open>None\<close> where
  \<^verbatim>\<open>JSON.parse\<close> throws, and also on the texts it does not read (fractions,
  exponents, Unicode escapes). It is run on plain trees only, and finds nothing in any
  other.
\<close>

definition json_space :: "char \<Rightarrow> bool" where
  "json_space c \<longleftrightarrow> c \<in> {CHR 0x20, CHR 0x09, CHR 0x0A, CHR 0x0D}"

definition skip_space :: "string \<Rightarrow> string" where
  "skip_space s = dropWhile json_space s"

text \<open>The character a backslash escape stands for; Unicode escapes are not read.\<close>

fun unescape :: "char \<Rightarrow> char option" where
  "unescape c =
     (if c = CHR 0x22 then Some (CHR 0x22)
      else if c = CHR 0x5C then Some (CHR 0x5C)
      else if c = CHR ''/'' then Some (CHR ''/'')
      else if c = CHR ''b'' then Some (CHR 0x08)
      else if c = CHR ''f'' then Some (CHR 0x0C)
      else if c = CHR ''n'' then Some (CHR 0x0A)
      else if c = CHR ''r'' then Some (CHR 0x0D)
      else if c = CHR ''t'' then Some (CHR 0x09)
      else None)"

text \<open>The rest of a string literal after its opening quote, and what follows it.\<close>

fun read_string :: "string \<Rightarrow> (string \<times> string) option" where
  "read_string [] = None"
| "read_string (c # cs) =
     (if c = CHR 0x22 then Some ([], cs)
      else if c = CHR 0x5C then
        (case cs of
           [] \<Rightarrow> None
         | e # r \<Rightarrow>
             (case unescape e of
                None \<Rightarrow> None
              | Some x \<Rightarrow> (case read_string r of None \<Rightarrow> None | Some (t, r') \<Rightarrow> Some (x # t, r'))))
      else if (of_char c :: nat) < 32 then None
      else (case read_string cs of None \<Rightarrow> None | Some (t, r') \<Rightarrow> Some (c # t, r')))"

definition is_digit :: "char \<Rightarrow> bool" where
  "is_digit c \<longleftrightarrow> 48 \<le> (of_char c :: nat) \<and> (of_char c :: nat) \<le> 57"

definition digits_value :: "string \<Rightarrow> nat" where
  "digits_value ds = foldl (\<lambda>a c. 10 * a + (of_char c - 48)) 0 ds"

text \<open>An integer literal: an optional minus sign, then \<open>0\<close> or digits that do not
  start with \<open>0\<close>; a fraction or an exponent is not read.\<close>

definition read_number :: "string \<Rightarrow> (int \<times> string) option" where
  "read_number s =
     (let neg = (s \<noteq> [] \<and> hd s = CHR ''-'');
          t = (if neg then tl s else s);
          ds = takeWhile is_digit t;
          r = dropWhile is_digit t
      in if ds = [] \<or> (length ds > 1 \<and> hd ds = CHR ''0'') then None
         else if r \<noteq> [] \<and> hd r \<in> {CHR ''.'', CHR ''e'', CHR ''E''} then None
         else Some (if neg then - int (digits_value ds) else int (digits_value ds), r))"

text \<open>
  Values, array elements and object members, by recursive descent. The fuel bounds the
  number of nested calls; twice the length of the text is enough for every text, as
  each call but the one from \<open>read_elements\<close> to \<open>read_value\<close> follows a character
  that was consumed.
\<close>

fun read_value :: "nat \<Rightarrow> string \<Rightarrow> (int jsval \<times> string) option"
  and read_elements :: "nat \<Rightarrow> string \<Rightarrow> (int jsval list \<times> string) option"
  and read_members :: "nat \<Rightarrow> string \<Rightarrow> ((string \<times> int jsval) list \<times> string) option" where
  "read_value 0 s = None"
| "read_value (Suc n) s =
     (case skip_space s of
        [] \<Rightarrow> None
      | c # r \<Rightarrow>
          if c = CHR ''{'' then
            (case skip_space r of
               [] \<Rightarrow> None
             | c' # r' \<Rightarrow>
                 if c' = CHR ''}'' then Some (JObj [], r')
                 else (case read_members n (c' # r') of
                         None \<Rightarrow> None | Some (ps, r'') \<Rightarrow> Some (JObj ps, r'')))
          else if c = CHR ''['' then
            (case skip_space r of
               [] \<Rightarrow> None
             | c' # r' \<Rightarrow>
                 if c' = CHR '']'' then Some (JArr [], r')
                 else (case read_elements n (c' # r') of
                         None \<Rightarrow> None | Some (vs, r'') \<Rightarrow> Some (JArr vs, r'')))
          else if c = CHR 0x22 then
            (case read_string r of None \<Rightarrow> None | Some (t, r') \<Rightarrow> Some (JStr t, r'))
          else if startsWith (c # r) ''true'' then Some (JBool True, drop 4 (c # r))
          else if startsWith (c # r) ''false'' then Some (JBool False, drop 5 (c # r))
          else if startsWith (c # r) ''null'' then Some (JNull, drop 4 (c # r))
          else (case read_number (c # r) of
                  None \<Rightarrow> None | Some (i, r') \<Rightarrow> Some (JNum i, r')))"
| "read_elements 0 s = None"
| "read_elements (Suc n) s =
     (case read_value n s of
        None \<Rightarrow> None
      | Some (v, r) \<Rightarrow>
          (case skip_space r of
             [] \<Rightarrow> None
           | c # r' \<Rightarrow>
               if c = CHR '','' then
                 (case read_elements n r' of
                    None \<Rightarrow> None | Some (vs, r'') \<Rightarrow> Some (v # vs, r''))
               else if c = CHR '']'' then Some ([v], r')
               else None))"
| "read_members 0 s = None"
| "read_members (Suc n) s =
     (case skip_space s of
        [] \<Rightarrow> None
      | q # r \<Rightarrow>
          if q \<noteq> CHR 0x22 then None
          else
            (case read_string r of
               None \<Rightarrow> None
             | Some (k, r1) \<Rightarrow>
                 (case skip_space r1 of
                    [] \<Rightarrow> None
                  | c # r2 \<Rightarrow>
                      if c \<noteq> CHR '':'' then None
                      else
                        (case read_value n r2 of
                           None \<Rightarrow> None
                         | Some (v, r3) \<Rightarrow>
                             (case skip_space r3 of
                                [] \<Rightarrow> None
                              | d # r4 \<Rightarrow>
                                  if d = CHR '','' then
                                    (case read_members n r4 of
                                       None \<Rightarrow> None
                                     | Some (ps, r5) \<Rightarrow> Some ((k, v) # ps, r5))
                                  else if d = CHR ''}'' then Some ([(k, v)], r4)
                                  else None)))))"

definition JSON_reader :: "string \<Rightarrow> int jsval option" where
  "JSON_reader s =
     (case read_value (2 * length s + 2) s of
        None \<Rightarrow> None
      | Some (v, r) \<Rightarrow> if skip_space r = [] then Some v else None)"

fun digit_string :: "nat \<Rightarrow> string" where
  "digit_string n =
     (if n < 10 then [char_of (48 + n)] else digit_string (n div 10) @ [char_of (48 + n mod 10)])"

definition int_string :: "int \<Rightarrow> string" where
  "int_string i = (if i < 0 then CHR ''-'' # digit_string (nat (- i)) else digit_string (nat i))"

definition reference_platform :: "int platform" where
  "reference_platform =
     \<lparr>JSON_parse = JSON_reader, Number_truthy = (\<lambda>i. i \<noteq> 0), Number_toString = int_string,
      markup_has = (\<lambda>d c. False)\<rparr>"


subsection \<open>Frames\<close>

text \<open>
  The vocabulary of the statements below. The lines of a stream are the lines of its
  chunks, chunk after chunk. The data of a line is what the parser accepts of it: the
  value \<^verbatim>\<open>JSON.parse\<close> returns for the text after the prefix. Its id is the truthy
  \<^verbatim>\<open>id\<close> it carries, its delta the text its truthy \<^verbatim>\<open>delta\<close> appends (none when
  the conversion throws).
\<close>

definition stream_lines :: "string list \<Rightarrow> string list" where
  "stream_lines chunks = concat (map chunk_lines chunks)"

definition frame_data :: "'n platform \<Rightarrow> string \<Rightarrow> 'n jsval option" where
  "frame_data P line =
     (if startsWith line ''data: '' then JSON_parse P (slice line 6) else None)"

definition frame_id :: "'n platform \<Rightarrow> string \<Rightarrow> 'n jsval option" where
  "frame_id P line =
     (case frame_data P line of
        None \<Rightarrow> None
      | Some data \<Rightarrow>
          (case js_get data ''id'' of
             Inl e \<Rightarrow> None
           | Inr i \<Rightarrow> if truthy P i then Some i else None))"

definition frame_delta :: "'n platform \<Rightarrow> string \<Rightarrow> string" where
  "frame_delta P line =
     (case frame_data P line of
        None \<Rightarrow> []
      | Some data \<Rightarrow>
          (case js_get data ''delta'' of
             Inl e \<Rightarrow> []
           | Inr d \<Rightarrow>
               if truthy P d then (case toString P d of Inl e \<Rightarrow> [] | Inr t \<Rightarrow> t) else []))"

definition first_id :: "'n platform \<Rightarrow> string list \<Rightarrow> 'n jsval" where
  "first_id P lines = (case List.map_filter (frame_id P) lines of [] \<Rightarrow> JNull | i # is \<Rightarrow> i)"

text \<open>
  A well-formed frame, in the words of the interface description: the prefix, then a
  JSON object that optionally carries an \<^verbatim>\<open>id\<close> and a \<^verbatim>\<open>delta\<close>, both strings.
\<close>

fun string_or_absent :: "'n jsval \<Rightarrow> bool" where
  "string_or_absent JUndefined = True"
| "string_or_absent (JStr s) = True"
| "string_or_absent v = False"

fun string_field :: "'n jsval \<Rightarrow> string option" where
  "string_field (JStr s) = Some s"
| "string_field v = None"

definition well_formed_frame :: "'n platform \<Rightarrow> string \<Rightarrow> bool" where
  "well_formed_frame P line =
     (case frame_data P line of
        Some (JObj ps) \<Rightarrow>
          string_or_absent (own_property ps ''delta'') \<and> string_or_absent (own_property ps ''id'')
      | _ \<Rightarrow> False)"

definition delta_field :: "'n platform \<Rightarrow> string \<Rightarrow> string option" where
  "delta_field P line =
     (case frame_data P line of
        Some (JObj ps) \<Rightarrow> string_field (own_property ps ''delta'')
      | _ \<Rightarrow> None)"

definition id_field :: "'n platform \<Rightarrow> string \<Rightarrow> string option" where
  "id_field P line =
     (case frame_data P line of
        Some (JObj ps) \<Rightarrow> string_field (own_property ps ''id'')
      | _ \<Rightarrow> None)"

text \<open>All delta fields of a stream in arrival order, and its first non-empty id.\<close>

definition all_deltas :: "'n platform \<Rightarrow> string list \<Rightarrow> string" where
  "all_deltas P lines = concat (List.map_filter (delta_field P) lines)"

definition stream_id :: "'n platform \<Rightarrow> string list \<Rightarrow> string option" where
  "stream_id P lines =
     (case filter (\<lambda>i. i \<noteq> []) (List.map_filter (id_field P) lines) of
        [] \<Rightarrow> None
      | i # is \<Rightarrow> Some i)"

text \<open>
  The frames of a stream, in the words of the interface description: the response is a
  text stream of newline-delimited frames. They are the lines of the whole text of the
  stream that are not blank, wherever the chunks of the stream end. The chunks hold
  whole frames when every chunk but the last is empty or ends with a line feed: then no
  chunk boundary falls inside a frame.
\<close>

fun lines_from :: "string \<Rightarrow> string \<Rightarrow> string list" where
  "lines_from cur [] = [rev cur]"
| "lines_from cur (c # cs) =
     (if c = CHR 0x0A then rev cur # lines_from [] cs else lines_from (c # cur) cs)"

definition stream_frames :: "string list \<Rightarrow> string list" where
  "stream_frames chunks =
     filter (\<lambda>l. \<not> list_all is_white_space l) (lines_from [] (concat chunks))"

fun frames_whole :: "string list \<Rightarrow> bool" where
  "frames_whole [] = True"
| "frames_whole [c] = True"
| "frames_whole (c # d # cs) = ((c = [] \<or> last c = CHR 0x0A) \<and> frames_whole (d # cs))"

text \<open>The element while \<^verbatim>\<open>sendMessage\<close> awaits the response to what was typed.\<close>

definition in_flight :: "'n widget \<Rightarrow> string \<Rightarrow> 'n widget" where
  "in_flight w typed =
     render (w\<lparr>messages := messages w @ [\<lparr>role = user, content = trim typed\<rparr>], isLoading := True\<rparr>)"

text \<open>The guards of \<^verbatim>\<open>sendMessage\<close>, all passed.\<close>

definition accepts :: "'n platform \<Rightarrow> 'n widget \<Rightarrow> string \<Rightarrow> bool" where
  "accepts P w typed \<longleftrightarrow>
     has_chat_input P (shadowRoot w) \<and> trim typed \<noteq> [] \<and> \<not> isLoading w
     \<and> str_truthy (publicKey (getConfig w)) \<and> str_truthy (assistantId (getConfig w))"

subsection \<open>Sequences of toggles\<close>

text \<open>
  \<^verbatim>\<open>toggleChat\<close> called again and again, each time with an explicit state or with
  none; the open states the calls leave one after the other; whether each call changes
  the state; and whether a list of events never has the same event twice in a row.
\<close>

fun toggles :: "'n widget \<Rightarrow> bool option list \<Rightarrow> 'n widget \<times> 'n effect list" where
  "toggles w [] = (w, [])"
| "toggles w (state # states) =
     (let (w1, e1) = toggleChat w state; (w2, e2) = toggles w1 states in (w2, e1 @ e2))"

definition event_for :: "bool \<Rightarrow> event" where
  "event_for is_open = (if is_open then ChatOpen else ChatClose)"

fun open_after :: "bool \<Rightarrow> bool option list \<Rightarrow> bool list" where
  "open_after b [] = []"
| "open_after b (state # states) =
     (let b1 = (case state of Some s \<Rightarrow> s | None \<Rightarrow> \<not> b) in b1 # open_after b1 states)"

fun flips :: "bool \<Rightarrow> bool option list \<Rightarrow> bool" where
  "flips b [] = True"
| "flips b (state # states) =
     (let b1 = (case state of Some s \<Rightarrow> s | None \<Rightarrow> \<not> b) in b1 \<noteq> b \<and> flips b1 states)"

fun no_repeat :: "event list \<Rightarrow> bool" where
  "no_repeat (x # y # zs) = (x \<noteq> y \<and> no_repeat (y # zs))"
| "no_repeat zs = True"

subsection \<open>Concrete inputs\<close>

definition example_attrs :: "string \<rightharpoonup> string" where
  "example_attrs = [''public-key'' \<mapsto> ''pk'', ''assistant-id'' \<mapsto> ''asst'']"

definition consent_attrs :: "string \<rightharpoonup> string" where
  "consent_attrs = example_attrs(''require-consent'' \<mapsto> ''true'')"

definition empty_storage :: storage where
  "empty_storage = \<lparr>items = Map.empty, readable = True, writable = True\<rparr>"

definition blocked_storage :: storage where
  "blocked_storage = \<lparr>items = Map.empty, readable = False, writable = False\<rparr>"

definition example_widget :: "int widget" where
  "example_widget = connectedCallback (constructor example_attrs) empty_storage"

definition consent_widget :: "int widget" where
  "consent_widget = connectedCallback (constructor consent_attrs) empty_storage"

definition hello_stream :: "string list" where
  \<open>hello_stream =
     [''data: {"delta":"Hel"}\<newline>\<newline>'',
      ''data: {"delta":"lo"}\<newline>\<newline>'',
      ''data: {"id":"c1"}\<newline>\<newline>'']\<close>

definition id_stream :: "string list" where
  \<open>id_stream =
     [''data: {"delta":"x"}\<newline>data: {"id":"c1"}\<newline>'',
      ''data: {"delta":"y"}\<newline>\<newline>data: {"id":"c2"}\<newline>'']\<close>


definition clean_stream :: "string list" where
  \<open>clean_stream =
     [''data: {"delta":"Hel"}\<newline>data: {"delta":"lo"}\<newline>'',
      ''data: {"id":"c1"}\<newline>'']\<close>

definition cut_hello_stream :: "string list" where
  \<open>cut_hello_stream =
     [''data: {"delta":"Hel"}\<newline>data: {"del'',
      ''ta":"lo"}\<newline>data: {"id":"c1"}\<newline>'']\<close>

definition cut_id_stream :: "string list" where
  \<open>cut_id_stream =
     [''data: {"id":"c'',
      ''1"}\<newline>data: {"delta":"x"}\<newline>data: {"id":"c2"}\<newline>'']\<close>

definition stale_run :: "operation list" where
  "stale_run =
     [ConnectedCallback, ToggleChat None,
      SetAttribute ''require-consent'' (Some ''true''), ConnectedCallback]"

definition stale_widget :: "int widget" where
  "stale_widget =
     fst (fst (run reference_platform stale_run (constructor example_attrs, empty_storage)))"

definition missing_attrs :: "string \<rightharpoonup> string" where
  "missing_attrs = [''public-key'' \<mapsto> ''pk'']"

definition missing_widget :: "int widget" where
  "missing_widget = connectedCallback (constructor missing_attrs) empty_storage"

definition granted_storage :: storage where
  "granted_storage =
     \<lparr>items = [''vapi_widget_consent'' \<mapsto> ''true''], readable = True, writable = True\<rparr>"

section \<open>Properties\<close>

subsection \<open>Lines and chunks\<close>

lemma split_nl_not_Nil: "split_nl s \<noteq> []"
  by (induction s) (auto split: list.splits)

lemma split_nl_no_newline: "CHR 0x0A \<notin> set s \<Longrightarrow> split_nl s = [s]"
  by (induction s) auto

lemma split_nl_append: "split_nl (a @ CHR 0x0A # b) = split_nl a @ split_nl b"
  by (induction a) (auto split: list.splits simp: split_nl_not_Nil)

lemma chunk_lines_append: "chunk_lines (a @ CHR 0x0A # b) = chunk_lines a @ chunk_lines b"
  by (simp add: chunk_lines_def split_nl_append)

lemma trim_Nil: "trim [] = []"
  by (simp add: trim_def)

lemma chunk_lines_Nil: "chunk_lines [] = []"
  by (simp add: chunk_lines_def trim_Nil)

lemma chunk_lines_single:
  "CHR 0x0A \<notin> set s \<Longrightarrow> chunk_lines s = (if trim s \<noteq> [] then [s] else [])"
  by (simp add: chunk_lines_def split_nl_no_newline)

lemma for_lines_append: "for_lines P (xs @ ys) s = for_lines P ys (for_lines P xs s)"
  by (induction xs arbitrary: s) auto

lemma read_loop_lines: "read_loop P chunks s = for_lines P (stream_lines chunks) s"
  by (induction chunks arbitrary: s) (auto simp: stream_lines_def for_lines_append)

lemma handle_line_rejected: "frame_data P l = None \<Longrightarrow> handle_line P l s = s"
  by (auto simp: frame_data_def handle_line_def split: if_splits)

lemma js_get_throws: "js_get v k = Inl e \<Longrightarrow> js_get v k' = Inr x \<Longrightarrow> False"
  by (cases v) auto

lemma handle_line_fullContent:
  "fullContent (handle_line P l s) = fullContent s @ frame_delta P l"
  by (auto simp: frame_data_def frame_delta_def handle_line_def Let_def
      split: option.splits sum.splits dest: js_get_throws)

lemma handle_line_chatId:
  "chatId (handle_line P l s) =
     (if truthy P (chatId s) then chatId s
      else (case frame_id P l of None \<Rightarrow> chatId s | Some i \<Rightarrow> i))"
  by (auto simp: frame_data_def frame_id_def handle_line_def Let_def
      split: option.splits sum.splits dest: js_get_throws)

lemma frame_id_truthy: "frame_id P l = Some i \<Longrightarrow> truthy P i"
  by (auto simp: frame_id_def split: option.splits sum.splits if_splits)

lemma for_lines_fullContent:
  "fullContent (for_lines P ls s) = fullContent s @ concat (map (frame_delta P) ls)"
  by (induction ls arbitrary: s) (auto simp: handle_line_fullContent)

lemma for_lines_chatId_kept:
  "truthy P (chatId s) \<Longrightarrow> chatId (for_lines P ls s) = chatId s"
  by (induction ls arbitrary: s) (auto simp: handle_line_chatId)

lemma for_lines_chatId:
  "\<not> truthy P (chatId s) \<Longrightarrow>
   chatId (for_lines P ls s) =
     (case List.map_filter (frame_id P) ls of [] \<Rightarrow> chatId s | i # is \<Rightarrow> i)"
proof (induction ls arbitrary: s)
  case Nil
  then show ?case by (simp add: List.map_filter_simps)
next
  case (Cons l ls)
  show ?case
  proof (cases "frame_id P l")
    case None
    then have "chatId (handle_line P l s) = chatId s"
      by (simp add: handle_line_chatId)
    with Cons None show ?thesis
      by (simp add: List.map_filter_simps split: list.splits)
  next
    case (Some i)
    then have "chatId (handle_line P l s) = i" "truthy P i"
      using Cons.prems by (simp_all add: handle_line_chatId frame_id_truthy)
    with Some show ?thesis
      by (simp add: List.map_filter_simps for_lines_chatId_kept)
  qed
qed

subsection \<open>Sending\<close>

lemma render_fields [simp]:
  "attrs (render w) = attrs w" "isOpen (render w) = isOpen w" "messages (render w) = messages w"
  "isLoading (render w) = isLoading w" "previousChatId (render w) = previousChatId w"
  "consentGiven (render w) = consentGiven w"
  by (simp_all add: render_def Let_def)

lemma getConfig_attrs: "attrs w' = attrs w \<Longrightarrow> getConfig w' = getConfig w"
  unfolding getConfig_def getAttr_def getBoolAttr_def by (erule ssubst) (rule refl)

lemma getConfig_render [simp]: "getConfig (render w) = getConfig w"
  by (rule getConfig_attrs) simp

lemma sendMessage_begin_accepted:
  "accepts P w typed \<Longrightarrow>
   sendMessage_begin P w typed =
     (render (w\<lparr>messages := messages w @ [\<lparr>role = user, content = trim typed\<rparr>], isLoading := True\<rparr>),
      [Dispatch (MessageEvent user (trim typed))],
      Some (trim typed, getConfig w))"
  by (simp add: accepts_def sendMessage_begin_def Let_def)

lemma callVapiAPI_ok:
  "response_ok status \<Longrightarrow> \<not> null_body status \<Longrightarrow>
   callVapiAPI P w message config (Responded status chunks Done) =
     (w\<lparr>shadowRoot := dom (read_loop P chunks (loop_start (shadowRoot w)))\<rparr>,
      snd (build_request P w message config) @ [Fetch (fst (build_request P w message config))],
      Inr (fullContent (read_loop P chunks (loop_start (shadowRoot w))),
           chatId (read_loop P chunks (loop_start (shadowRoot w)))))"
  by (simp add: callVapiAPI_def Let_def split: prod.splits)

lemma read_loop_fullContent:
  "fullContent (read_loop P chunks (loop_start d)) = concat (map (frame_delta P) (stream_lines chunks))"
  by (simp add: read_loop_lines for_lines_fullContent loop_start_def)

lemma read_loop_chatId:
  "chatId (read_loop P chunks (loop_start d)) = first_id P (stream_lines chunks)"
  by (simp add: read_loop_lines for_lines_chatId loop_start_def first_id_def split: list.splits)

lemma sendMessage_accepted:
  assumes "accepts P w typed"
  shows "sendMessage P w typed outcome =
           (fst (sendMessage_end P (fst (callVapiAPI P (in_flight w typed) (trim typed) (getConfig w) outcome))
                   (snd (snd (callVapiAPI P (in_flight w typed) (trim typed) (getConfig w) outcome)))),
            Dispatch (MessageEvent user (trim typed))
            # fst (snd (callVapiAPI P (in_flight w typed) (trim typed) (getConfig w) outcome))
            @ snd (sendMessage_end P (fst (callVapiAPI P (in_flight w typed) (trim typed) (getConfig w) outcome))
                   (snd (snd (callVapiAPI P (in_flight w typed) (trim typed) (getConfig w) outcome)))))"
  unfolding sendMessage_def sendMessage_begin_accepted [OF assms] in_flight_def
  by (simp add: case_prod_beta)

lemma sendMessage_end_ok:
  "sendMessage_end P w (Inr (c, i)) =
     (render (w\<lparr>messages := messages w @ [\<lparr>role = assistant, content = c\<rparr>],
                previousChatId := (if truthy P i then i else previousChatId w),
                isLoading := False\<rparr>),
      [Dispatch (MessageEvent assistant c)])"
  by (simp add: sendMessage_end_def)

lemma sendMessage_ok_messages:
  assumes "accepts P w typed" and "response_ok status" and "\<not> null_body status"
  shows "messages (fst (sendMessage P w typed (Responded status chunks Done))) =
           messages w @ [\<lparr>role = user, content = trim typed\<rparr>,
                         \<lparr>role = assistant,
                          content = concat (map (frame_delta P) (stream_lines chunks))\<rparr>]"
  unfolding sendMessage_accepted [OF assms(1)] callVapiAPI_ok [OF assms(2,3)]
  by (simp add: sendMessage_end_ok read_loop_fullContent in_flight_def)

lemma sendMessage_ok_previousChatId:
  assumes "accepts P w typed" and "response_ok status" and "\<not> null_body status"
  shows "previousChatId (fst (sendMessage P w typed (Responded status chunks Done))) =
           (if truthy P (first_id P (stream_lines chunks))
            then first_id P (stream_lines chunks) else previousChatId w)"
  unfolding sendMessage_accepted [OF assms(1)] callVapiAPI_ok [OF assms(2,3)]
  by (simp add: sendMessage_end_ok read_loop_chatId in_flight_def)

lemma first_id_found:
  assumes "list_all (\<lambda>l. frame_id P l = None) pre" and "frame_id P f = Some i"
  shows "first_id P (pre @ f # post) = i"
  using assms by (induction pre) (auto simp: first_id_def List.map_filter_simps)

subsection \<open>Rejected lines\<close>

lemma trim_Nil_iff: "trim l = [] \<longleftrightarrow> (\<forall>c\<in>set l. is_white_space c)"
proof
  assume "trim l = []"
  then have all: "\<forall>c\<in>set (dropWhile is_white_space l). is_white_space c"
    by (simp add: trim_def dropWhile_eq_Nil_conv)
  have "dropWhile is_white_space l = []"
  proof (rule ccontr)
    assume n: "dropWhile is_white_space l \<noteq> []"
    then have "\<not> is_white_space (hd (dropWhile is_white_space l))"
      by (rule hd_dropWhile)
    moreover have "hd (dropWhile is_white_space l) \<in> set (dropWhile is_white_space l)"
      using n by simp
    ultimately show False using all by blast
  qed
  then show "\<forall>c\<in>set l. is_white_space c"
    by (simp add: dropWhile_eq_Nil_conv)
next
  assume "\<forall>c\<in>set l. is_white_space c"
  then have "dropWhile is_white_space l = []"
    by (simp add: dropWhile_eq_Nil_conv)
  then show "trim l = []"
    by (simp only: trim_def dropWhile.simps rev.simps)
qed

lemma blank_no_prefix: "trim l = [] \<Longrightarrow> \<not> startsWith l ''data: ''"
  by (cases l) (auto simp: trim_Nil_iff startsWith_def is_white_space_def)

lemma blank_frame_data: "trim l = [] \<Longrightarrow> frame_data P l = None"
  by (simp add: frame_data_def blank_no_prefix)

lemma blank_frame_delta: "trim l = [] \<Longrightarrow> frame_delta P l = []"
  by (simp add: frame_delta_def blank_frame_data)

lemma chunk_lines_after_newline:
  assumes "pre = [] \<or> last pre = CHR 0x0A"
  shows "chunk_lines (pre @ a) = chunk_lines pre @ chunk_lines a"
proof (cases "pre = []")
  case True
  then show ?thesis by (simp add: chunk_lines_Nil)
next
  case False
  with assms obtain p where p: "pre = p @ [CHR 0x0A]"
    by (metis append_butlast_last_id)
  have "chunk_lines (pre @ a) = chunk_lines p @ chunk_lines a"
    unfolding p using chunk_lines_append [of p a] by simp
  moreover have "chunk_lines pre = chunk_lines p"
    unfolding p using chunk_lines_append [of p "[]"] by (simp add: chunk_lines_Nil)
  ultimately show ?thesis by simp
qed

lemma chunk_lines_before_newline:
  assumes "post = [] \<or> hd post = CHR 0x0A"
  shows "chunk_lines (b @ post) = chunk_lines b @ chunk_lines post"
proof (cases post)
  case Nil
  then show ?thesis by (simp add: chunk_lines_Nil)
next
  case (Cons c q)
  with assms have c: "c = CHR 0x0A" by simp
  have "chunk_lines (b @ post) = chunk_lines b @ chunk_lines q"
    unfolding Cons c by (rule chunk_lines_append)
  moreover have "chunk_lines post = chunk_lines q"
    unfolding Cons c using chunk_lines_append [of "[]" q] by (simp add: chunk_lines_Nil)
  ultimately show ?thesis by simp
qed

lemma stream_lines_append: "stream_lines (xs @ ys) = stream_lines xs @ stream_lines ys"
  by (simp add: stream_lines_def)

lemma stream_lines_Cons: "stream_lines (c # cs) = chunk_lines c @ stream_lines cs"
  by (simp add: stream_lines_def)

lemma stream_lines_Nil: "stream_lines [] = []"
  by (simp add: stream_lines_def)

lemma for_lines_rejected:
  "list_all (\<lambda>l. frame_data P l = None) ls \<Longrightarrow> for_lines P ls s = s"
  by (induction ls arbitrary: s) (auto simp: handle_line_rejected)

lemma chunk_lines_rejected:
  assumes "CHR 0x0A \<notin> set a" and "frame_data P a = None"
  shows "for_lines P (chunk_lines a) s = s"
  using assms by (simp add: chunk_lines_single handle_line_rejected)

lemma deltas_of_line:
  assumes "CHR 0x0A \<notin> set l"
  shows "concat (map (frame_delta P) (chunk_lines l)) = frame_delta P l"
  using assms by (simp add: chunk_lines_single blank_frame_delta)

lemma frame_delta_rejected: "frame_data P l = None \<Longrightarrow> frame_delta P l = []"
  by (simp add: frame_delta_def)

subsection \<open>Frames and chunks\<close>

lemma lines_from_split: "lines_from cur s = (rev cur @ hd (split_nl s)) # tl (split_nl s)"
proof (induction s arbitrary: cur)
  case Nil
  then show ?case by simp
next
  case (Cons c cs)
  show ?case
  proof (cases "c = CHR 0x0A")
    case True
    then show ?thesis
      using split_nl_not_Nil [of cs] by (simp add: Cons.IH)
  next
    case False
    obtain l ls where "split_nl cs = l # ls"
      using split_nl_not_Nil [of cs] by (cases "split_nl cs") auto
    with False show ?thesis by (simp add: Cons.IH)
  qed
qed

lemma lines_from_Nil: "lines_from [] s = split_nl s"
  using split_nl_not_Nil [of s] by (simp add: lines_from_split)

lemma not_blank: "(\<not> list_all is_white_space l) = (trim l \<noteq> [])"
  by (simp add: trim_Nil_iff list_all_iff)

lemma stream_frames_chunk_lines: "stream_frames chunks = chunk_lines (concat chunks)"
  by (simp add: stream_frames_def chunk_lines_def lines_from_Nil not_blank)

lemma stream_lines_whole: "frames_whole chunks \<Longrightarrow> stream_lines chunks = stream_frames chunks"
proof (induction chunks rule: frames_whole.induct)
  case 1
  then show ?case
    by (simp add: stream_frames_chunk_lines stream_lines_Nil chunk_lines_Nil)
next
  case (2 c)
  then show ?case
    by (simp add: stream_frames_chunk_lines stream_lines_Cons stream_lines_Nil)
next
  case (3 c d cs)
  then have e: "c = [] \<or> last c = CHR 0x0A" and w: "frames_whole (d # cs)"
    by simp_all
  have "stream_lines (c # d # cs) = chunk_lines c @ chunk_lines (concat (d # cs))"
    using "3.IH" [OF w] by (simp add: stream_lines_Cons stream_frames_chunk_lines)
  also have "\<dots> = chunk_lines (c @ concat (d # cs))"
    by (rule chunk_lines_after_newline [OF e, symmetric])
  finally show ?case
    by (simp add: stream_frames_chunk_lines)
qed

subsection \<open>The streaming parser\<close>



text \<open>
  Claim C9, as stated, fails: the parser sees a frame only when it arrives whole in one
  chunk. In a stream with the id frames c1 and then c2 whose first frame is cut by a
  chunk boundary, \<^verbatim>\<open>callVapiAPI\<close> returns c2.
\<close>

theorem cut_id_frame_counterexample:
  \<open>stream_frames cut_id_stream =
     [''data: {"id":"c1"}'', ''data: {"delta":"x"}'', ''data: {"id":"c2"}'']
   \<and> frame_id reference_platform ''data: {"id":"c1"}'' = Some (JStr ''c1'')
   \<and> snd (snd (callVapiAPI reference_platform example_widget ''hi'' (getConfig example_widget)
        (Responded 200 cut_id_stream Done))) = Inr (''x'', JStr ''c2'')\<close>
  by code_simp

text \<open>
  Claim C9, amended. In a stream whose chunks hold whole frames (every chunk but the
  last ends with a line feed), the continuation token is the id of the first frame of
  the stream that carries a truthy \<^verbatim>\<open>id\<close>: whatever frames follow it, with whatever
  ids, \<^verbatim>\<open>callVapiAPI\<close> returns that first id as \<^verbatim>\<open>chatId\<close> for a successful
  response with a body, and an accepted \<^verbatim>\<open>sendMessage\<close> stores it as
  \<^verbatim>\<open>previousChatId\<close>.
\<close>

theorem first_id_is_kept:
  assumes "frames_whole chunks"
    and "stream_frames chunks = pre @ f # post"
    and "list_all (\<lambda>l. frame_id P l = None) pre"
    and "frame_id P f = Some i"
    and "response_ok status" and "\<not> null_body status"
  shows "snd (snd (callVapiAPI P w message config (Responded status chunks Done))) =
           Inr (fullContent (read_loop P chunks (loop_start (shadowRoot w))), i)
         \<and> (accepts P w typed \<longrightarrow>
              previousChatId (fst (sendMessage P w typed (Responded status chunks Done))) = i)"
proof -
  have "stream_lines chunks = pre @ f # post"
    using assms(1,2) by (simp add: stream_lines_whole)
  then have fid: "first_id P (stream_lines chunks) = i"
    using assms(3,4) by (simp add: first_id_found)
  have "truthy P i"
    using assms(4) by (rule frame_id_truthy)
  with fid assms(5,6) show ?thesis
    by (simp add: callVapiAPI_ok read_loop_chatId sendMessage_ok_previousChatId)
qed

text \<open>A stream of whole frames with the ids c1 and then c2 yields c1.\<close>

theorem first_id_is_kept_witness:
  \<open>snd (snd (callVapiAPI reference_platform example_widget ''hi'' (getConfig example_widget)
      (Responded 200 id_stream Done))) = Inr (''xy'', JStr ''c1'')
   \<and> previousChatId (fst (sendMessage reference_platform example_widget ''hi''
      (Responded 200 id_stream Done))) = JStr ''c1''\<close>
proof -
  have h0: "frames_whole id_stream"
    by code_simp
  have h1: \<open>stream_frames id_stream =
      [''data: {"delta":"x"}''] @ ''data: {"id":"c1"}'' # [''data: {"delta":"y"}'', ''data: {"id":"c2"}'']\<close>
    by code_simp
  have h2: \<open>list_all (\<lambda>l. frame_id reference_platform l = None) [''data: {"delta":"x"}'']\<close>
    by code_simp
  have h3: \<open>frame_id reference_platform ''data: {"id":"c1"}'' = Some (JStr ''c1'')\<close>
    by code_simp
  have h4: "response_ok 200"
    by code_simp
  have h5: "\<not> null_body 200"
    by code_simp
  have a: "accepts reference_platform example_widget ''hi''"
    by code_simp
  have c: "fullContent (read_loop reference_platform id_stream (loop_start (shadowRoot example_widget))) = ''xy''"
    by code_simp
  from first_id_is_kept [OF h0 h1 h2 h3 h4 h5, of example_widget "''hi''" "getConfig example_widget" "''hi''"] a c
  show ?thesis by simp
qed

text \<open>
  Claim C10. Lines are taken chunk by chunk and nothing is carried over from one chunk
  to the next. When a frame \<open>a @ b\<close> is cut into the end \<open>a\<close> of one chunk and the
  start \<open>b\<close> of the next, each fragment is a line of its own; when each fragment fails
  the prefix test or the JSON parse, the loop ends as if the frame had never been sent:
  its delta is missing from the content, and the other frames count as before. The
  same frame inside one chunk contributes its delta.
\<close>

theorem split_frame_is_lost:
  assumes "a \<noteq> []" and "b \<noteq> []" and "CHR 0x0A \<notin> set (a @ b)"
    and "frame_data P a = None" and "frame_data P b = None"
    and "pre = [] \<or> last pre = CHR 0x0A" and "post = [] \<or> hd post = CHR 0x0A"
  shows "stream_lines (cs1 @ [pre @ a, b @ post] @ cs2) =
           stream_lines cs1 @ chunk_lines pre @ chunk_lines a @ chunk_lines b
           @ chunk_lines post @ stream_lines cs2
    \<and> read_loop P (cs1 @ [pre @ a, b @ post] @ cs2) s = read_loop P (cs1 @ [pre, post] @ cs2) s
    \<and> fullContent (read_loop P (cs1 @ [pre @ a, b @ post] @ cs2) (loop_start d)) =
        concat (map (frame_delta P) (stream_lines cs1 @ chunk_lines pre))
        @ concat (map (frame_delta P) (chunk_lines post @ stream_lines cs2))
    \<and> fullContent (read_loop P (cs1 @ [pre @ a @ b @ post] @ cs2) (loop_start d)) =
        concat (map (frame_delta P) (stream_lines cs1 @ chunk_lines pre))
        @ frame_delta P (a @ b)
        @ concat (map (frame_delta P) (chunk_lines post @ stream_lines cs2))"
proof -
  have nl: "CHR 0x0A \<notin> set a" "CHR 0x0A \<notin> set b"
    using assms(3) by simp_all
  have lines: "stream_lines (cs1 @ [pre @ a, b @ post] @ cs2) =
           stream_lines cs1 @ chunk_lines pre @ chunk_lines a @ chunk_lines b
           @ chunk_lines post @ stream_lines cs2"
    by (simp add: stream_lines_append stream_lines_Cons stream_lines_Nil
        chunk_lines_after_newline [OF assms(6)] chunk_lines_before_newline [OF assms(7)])
  have lines': "stream_lines (cs1 @ [pre, post] @ cs2) =
           stream_lines cs1 @ chunk_lines pre @ chunk_lines post @ stream_lines cs2"
    by (simp add: stream_lines_append stream_lines_Cons stream_lines_Nil)
  have whole: "stream_lines (cs1 @ [pre @ a @ b @ post] @ cs2) =
           stream_lines cs1 @ chunk_lines pre @ chunk_lines (a @ b)
           @ chunk_lines post @ stream_lines cs2"
    using chunk_lines_after_newline [OF assms(6), of "(a @ b) @ post"]
      chunk_lines_before_newline [OF assms(7), of "a @ b"]
    by (simp add: stream_lines_append stream_lines_Cons stream_lines_Nil)
  have loop: "read_loop P (cs1 @ [pre @ a, b @ post] @ cs2) s =
        read_loop P (cs1 @ [pre, post] @ cs2) s"
    unfolding read_loop_lines lines lines'
    by (simp add: for_lines_append chunk_lines_rejected [OF nl(1) assms(4)]
        chunk_lines_rejected [OF nl(2) assms(5)])
  have lost: "fullContent (read_loop P (cs1 @ [pre @ a, b @ post] @ cs2) (loop_start d)) =
        concat (map (frame_delta P) (stream_lines cs1 @ chunk_lines pre))
        @ concat (map (frame_delta P) (chunk_lines post @ stream_lines cs2))"
    unfolding read_loop_fullContent lines
    using deltas_of_line [OF nl(1), of P] deltas_of_line [OF nl(2), of P]
    by (simp add: frame_delta_rejected [OF assms(4)] frame_delta_rejected [OF assms(5)])
  have kept: "fullContent (read_loop P (cs1 @ [pre @ a @ b @ post] @ cs2) (loop_start d)) =
        concat (map (frame_delta P) (stream_lines cs1 @ chunk_lines pre))
        @ frame_delta P (a @ b)
        @ concat (map (frame_delta P) (chunk_lines post @ stream_lines cs2))"
    unfolding read_loop_fullContent whole
    using deltas_of_line [OF assms(3), of P] by simp
  from lines loop lost kept show ?thesis by simp
qed

text \<open>The frame with delta lo, cut inside its JSON text: Hel instead of Hello. On the
  reference platform both fragments of that frame are rejected wherever it is cut.\<close>

theorem split_frame_is_lost_witness:
  \<open>frame_data reference_platform ''data: {"del'' = None
   \<and> frame_data reference_platform ''ta":"lo"}'' = None
   \<and> fullContent (read_loop reference_platform
        ([] @ [''data: {"delta":"Hel"}\<newline>'' @ ''data: {"del'', ''ta":"lo"}'' @ ''\<newline>'']
         @ [''data: {"id":"c1"}\<newline>''])
        (loop_start None)) = ''Hel''
   \<and> fullContent (read_loop reference_platform
        ([] @ [''data: {"delta":"Hel"}\<newline>'' @ ''data: {"del'' @ ''ta":"lo"}'' @ ''\<newline>'']
         @ [''data: {"id":"c1"}\<newline>''])
        (loop_start None)) = ''Hello''
   \<and> list_all
        (\<lambda>k. frame_data reference_platform (take k ''data: {"delta":"lo"}'') = None
           \<and> frame_data reference_platform (drop k ''data: {"delta":"lo"}'') = None)
        [1..<length ''data: {"delta":"lo"}'']\<close>
proof -
  have every_cut: \<open>list_all
        (\<lambda>k. frame_data reference_platform (take k ''data: {"delta":"lo"}'') = None
           \<and> frame_data reference_platform (drop k ''data: {"delta":"lo"}'') = None)
        [1..<length ''data: {"delta":"lo"}'']\<close>
    by code_simp
  have h1: \<open>''data: {"del'' \<noteq> []\<close> and h2: \<open>''ta":"lo"}'' \<noteq> []\<close>
    by simp_all
  have h3: \<open>CHR 0x0A \<notin> set (''data: {"del'' @ ''ta":"lo"}'')\<close>
    by code_simp
  have h4: \<open>frame_data reference_platform ''data: {"del'' = None\<close>
    by code_simp
  have h5: \<open>frame_data reference_platform ''ta":"lo"}'' = None\<close>
    by code_simp
  have h6: \<open>''data: {"delta":"Hel"}\<newline>'' = [] \<or> last ''data: {"delta":"Hel"}\<newline>'' = CHR 0x0A\<close>
    by code_simp
  have h7: \<open>''\<newline>'' = [] \<or> hd ''\<newline>'' = CHR 0x0A\<close>
    by code_simp
  have d1: \<open>concat (map (frame_delta reference_platform)
        (stream_lines [] @ chunk_lines ''data: {"delta":"Hel"}\<newline>'')) = ''Hel''\<close>
    by code_simp
  have d2: \<open>concat (map (frame_delta reference_platform)
        (chunk_lines ''\<newline>'' @ stream_lines [''data: {"id":"c1"}\<newline>''])) = []\<close>
    by code_simp
  have d3: \<open>frame_delta reference_platform (''data: {"del'' @ ''ta":"lo"}'') = ''lo''\<close>
    by code_simp
  note r = split_frame_is_lost [OF h1 h2 h3 h4 h5 h6 h7, of "[]" \<open>[''data: {"id":"c1"}\<newline>'']\<close> _ None]
  note lost = r [THEN conjunct2, THEN conjunct2, THEN conjunct1, unfolded d1 d2]
  note kept = r [THEN conjunct2, THEN conjunct2, THEN conjunct2, unfolded d1 d2 d3]
  from lost kept h4 h5 every_cut show ?thesis by simp
qed

subsection \<open>Well-formed frames\<close>

lemma wf_frame_delta:
  "well_formed_frame P l \<Longrightarrow> frame_delta P l = (case delta_field P l of None \<Rightarrow> [] | Some d \<Rightarrow> d)"
  by (auto simp: well_formed_frame_def frame_delta_def delta_field_def
      split: option.splits jsval.splits elim: string_or_absent.elims)

lemma wf_all_deltas:
  "list_all (well_formed_frame P) ls \<Longrightarrow> concat (map (frame_delta P) ls) = all_deltas P ls"
  by (induction ls) (auto simp: all_deltas_def List.map_filter_simps wf_frame_delta split: option.splits)

lemma wf_frame_id:
  "well_formed_frame P l \<Longrightarrow>
   frame_id P l = (case id_field P l of None \<Rightarrow> None | Some i \<Rightarrow> if i \<noteq> [] then Some (JStr i) else None)"
  by (auto simp: well_formed_frame_def frame_id_def id_field_def
      split: option.splits jsval.splits elim: string_or_absent.elims)

lemma wf_first_id:
  "list_all (well_formed_frame P) ls \<Longrightarrow>
   first_id P ls = (case stream_id P ls of None \<Rightarrow> JNull | Some i \<Rightarrow> JStr i)"
  by (induction ls)
    (auto simp: first_id_def stream_id_def List.map_filter_simps wf_frame_id
      split: option.splits list.splits)

lemma stream_id_nonempty: "stream_id P ls = Some i \<Longrightarrow> i \<noteq> []"
  unfolding stream_id_def by (auto split: list.splits simp: filter_eq_Cons_iff)

lemma requests_of_append: "requests_of (xs @ ys) = requests_of xs @ requests_of ys"
  by (induction xs rule: requests_of.induct) auto

lemma events_of_append: "events_of (xs @ ys) = events_of xs @ events_of ys"
  by (induction xs rule: events_of.induct) auto

lemma build_request_warnings:
  "requests_of (snd (build_request P w m c)) = []" "events_of (snd (build_request P w m c)) = []"
  by (simp_all add: build_request_def Let_def)

lemma build_request_previous:
  "payload_previousChatId (request_body (fst (build_request P w m c))) =
     (if truthy P (previousChatId w) then Some (previousChatId w) else None)"
  by (simp add: build_request_def Let_def)

lemma callVapiAPI_effects:
  "fst (snd (callVapiAPI P w m c outcome)) =
     snd (build_request P w m c) @ [Fetch (fst (build_request P w m c))]"
  by (simp add: callVapiAPI_def Let_def split: prod.splits fetch_outcome.splits body_end.splits)

lemma sendMessage_end_effects:
  "requests_of (snd (sendMessage_end P w r)) = []"
  by (simp add: sendMessage_end_def split: sum.splits prod.splits)

lemma sendMessage_requests:
  assumes "accepts P w typed"
  shows "requests_of (snd (sendMessage P w typed outcome)) =
           [fst (build_request P (in_flight w typed) (trim typed) (getConfig w))]"
  unfolding sendMessage_accepted [OF assms]
  by (simp add: requests_of_append callVapiAPI_effects build_request_warnings sendMessage_end_effects)

lemma in_flight_previousChatId: "previousChatId (in_flight w typed) = previousChatId w"
  by (simp add: in_flight_def)

subsection \<open>A whole turn\<close>

text \<open>
  Claim C1, as stated, fails: the parser sees a frame only when it arrives whole in one
  chunk. The stream of the well-formed frames Hel, lo and the id c1, with a chunk
  boundary inside the second frame, ends in the assistant message Hel.
\<close>

theorem cut_stream_counterexample:
  "list_all (well_formed_frame reference_platform) (stream_frames cut_hello_stream)
   \<and> all_deltas reference_platform (stream_frames cut_hello_stream) = ''Hello''
   \<and> accepts reference_platform example_widget ''hi''
   \<and> messages (fst (sendMessage reference_platform example_widget ''hi''
        (Responded 200 cut_hello_stream Done))) =
       [\<lparr>role = user, content = ''hi''\<rparr>, \<lparr>role = assistant, content = ''Hel''\<rparr>]"
  by code_simp

text \<open>
  Claim C1, amended. When \<^verbatim>\<open>sendMessage\<close> accepts what was typed and the response
  is successful, has a body, and is a stream of well-formed frames whose chunks hold
  whole frames (every chunk but the last ends with a line feed), the assistant message
  it appends has as content the delta fields of all frames of the stream, concatenated
  in arrival order;
  \<^verbatim>\<open>previousChatId\<close> becomes the first non-empty id of the stream (and stays what it
  was when the stream carries none); and the request of the next accepted
  \<^verbatim>\<open>sendMessage\<close> carries that id as \<^verbatim>\<open>previousChatId\<close>.
\<close>

theorem stream_is_accumulated:
  assumes "accepts P w typed" and "response_ok status" and "\<not> null_body status"
    and "frames_whole chunks"
    and "list_all (well_formed_frame P) (stream_frames chunks)"
  shows "messages (fst (sendMessage P w typed (Responded status chunks Done))) =
           messages w @ [\<lparr>role = user, content = trim typed\<rparr>,
                         \<lparr>role = assistant, content = all_deltas P (stream_frames chunks)\<rparr>]
    \<and> previousChatId (fst (sendMessage P w typed (Responded status chunks Done))) =
        (case stream_id P (stream_frames chunks) of None \<Rightarrow> previousChatId w | Some i \<Rightarrow> JStr i)
    \<and> (\<forall>i. stream_id P (stream_frames chunks) = Some i
            \<and> accepts P (fst (sendMessage P w typed (Responded status chunks Done))) typed'
          \<longrightarrow> map (\<lambda>r. payload_previousChatId (request_body r))
                (requests_of (snd (sendMessage P
                   (fst (sendMessage P w typed (Responded status chunks Done))) typed' outcome')))
              = [Some (JStr i)])"
proof -
  let ?w = "fst (sendMessage P w typed (Responded status chunks Done))"
  have l: "stream_lines chunks = stream_frames chunks"
    using assms(4) by (rule stream_lines_whole)
  have wf: "list_all (well_formed_frame P) (stream_lines chunks)"
    using assms(5) by (simp add: l)
  have m: "messages ?w =
           messages w @ [\<lparr>role = user, content = trim typed\<rparr>,
                         \<lparr>role = assistant, content = all_deltas P (stream_frames chunks)\<rparr>]"
    using wf_all_deltas [OF wf] by (simp add: sendMessage_ok_messages [OF assms(1,2,3)] l)
  have f: "first_id P (stream_lines chunks) =
        (case stream_id P (stream_frames chunks) of None \<Rightarrow> JNull | Some i \<Rightarrow> JStr i)"
    using wf_first_id [OF assms(5)] by (simp add: l)
  have p: "previousChatId ?w =
        (case stream_id P (stream_frames chunks) of None \<Rightarrow> previousChatId w | Some i \<Rightarrow> JStr i)"
    unfolding sendMessage_ok_previousChatId [OF assms(1,2,3)] f
    by (cases "stream_id P (stream_frames chunks)") (auto dest: stream_id_nonempty)
  have n: "map (\<lambda>r. payload_previousChatId (request_body r))
             (requests_of (snd (sendMessage P ?w typed' outcome'))) = [Some (JStr i)]"
    if "stream_id P (stream_frames chunks) = Some i" and "accepts P ?w typed'" for i
  proof -
    have "i \<noteq> []"
      using that(1) by (rule stream_id_nonempty)
    then show ?thesis
      using that p by (simp add: sendMessage_requests build_request_previous in_flight_previousChatId)
  qed
  from m p n show ?thesis by blast
qed

text \<open>The stream of the frames Hel, lo and the id c1, the first two in one chunk, on
  the reference platform: the assistant message is Hello and the next request carries
  c1.\<close>

theorem stream_is_accumulated_witness:
  \<open>messages (fst (sendMessage reference_platform example_widget ''hi'' (Responded 200 clean_stream Done))) =
     [\<lparr>role = user, content = ''hi''\<rparr>, \<lparr>role = assistant, content = ''Hello''\<rparr>]
   \<and> previousChatId (fst (sendMessage reference_platform example_widget ''hi''
        (Responded 200 clean_stream Done))) = JStr ''c1''
   \<and> map (\<lambda>r. payload_previousChatId (request_body r))
        (requests_of (snd (sendMessage reference_platform
           (fst (sendMessage reference_platform example_widget ''hi'' (Responded 200 clean_stream Done)))
           ''and then?'' Rejected)))
      = [Some (JStr ''c1'')]\<close>
proof -
  have h1: "accepts reference_platform example_widget ''hi''"
    by code_simp
  have h2: "response_ok 200"
    by code_simp
  have h3: "\<not> null_body 200"
    by code_simp
  have h4: "frames_whole clean_stream"
    by code_simp
  have h5: "list_all (well_formed_frame reference_platform) (stream_frames clean_stream)"
    by code_simp
  have d: "all_deltas reference_platform (stream_frames clean_stream) = ''Hello''"
    by code_simp
  have i: "stream_id reference_platform (stream_frames clean_stream) = Some ''c1''"
    by code_simp
  have m: "messages example_widget = []"
    by code_simp
  have t: "trim ''hi'' = ''hi''"
    by code_simp
  have a: "accepts reference_platform (fst (sendMessage reference_platform example_widget ''hi''
        (Responded 200 clean_stream Done))) ''and then?''"
    by code_simp
  from stream_is_accumulated [OF h1 h2 h3 h4 h5, of "''and then?''" Rejected] a
  show ?thesis
    unfolding d i m t by simp
qed

text \<open>
  Claim C6. When the value of the input box trims to the empty string, or a send is in
  flight (\<^verbatim>\<open>isLoading\<close>), \<^verbatim>\<open>sendMessage\<close> returns at once: the element is
  unchanged, nothing is appended, and there is no effect at all, so no request and no
  event.
\<close>

theorem send_is_ignored:
  assumes "trim typed = [] \<or> isLoading w"
  shows "sendMessage P w typed outcome = (w, [])"
  using assms by (auto simp: sendMessage_def sendMessage_begin_def)

text \<open>A blank input, and a second send while the first one waits for its response.\<close>

theorem send_is_ignored_witness:
  "sendMessage reference_platform example_widget '' \<newline> '' (Responded 200 hello_stream Done) =
     (example_widget, [])
   \<and> sendMessage reference_platform (in_flight example_widget ''hi'') ''again''
        (Responded 200 hello_stream Done) = (in_flight example_widget ''hi'', [])"
proof -
  have h1: "trim '' \<newline> '' = [] \<or> isLoading example_widget"
    by code_simp
  have h2: "trim ''again'' = [] \<or> isLoading (in_flight example_widget ''hi'')"
    by code_simp
  from send_is_ignored [OF h1] send_is_ignored [OF h2] show ?thesis by simp
qed

subsection \<open>Configuration and consent\<close>

lemma str_truthy_or_else_None: "str_truthy (or_else x None) = str_truthy x"
  by (simp add: or_else_def)

lemma getConfig_publicKey: "publicKey (getConfig w) = getAttr w ''public-key'' None"
  by (simp add: getConfig_def)

lemma getConfig_assistantId: "assistantId (getConfig w) = getAttr w ''assistant-id'' None"
  by (simp add: getConfig_def)

lemma getConfig_requireConsent: "requireConsent (getConfig w) = getBoolAttr w ''require-consent''"
  by (simp add: getConfig_def)

lemma getConfig_localStorageKey:
  "localStorageKey (getConfig w) = getAttr w ''local-storage-key'' (Some ''vapi_widget_consent'')"
  by (simp add: getConfig_def)

lemma data_attr_empty: "data_attr a name [] = [] \<longleftrightarrow> \<not> str_truthy (a name)"
  by (cases "a name") (auto simp: data_attr_def or_else_def)

lemma loader_publicKey: "ld_publicKey (loader_config_of a) = data_attr a ''data-public-key'' []"
  by (simp add: loader_config_of_def)

lemma loader_assistantId: "ld_assistantId (loader_config_of a) = data_attr a ''data-assistant-id'' []"
  by (simp add: loader_config_of_def)

lemma init_aborts:
  assumes "ld_publicKey c = [] \<or> ld_assistantId c = []"
  shows "init c script_loads = [LogError ''VAPI Custom Widget: data-public-key is required'']
       \<or> init c script_loads = [LogError ''VAPI Custom Widget: data-assistant-id is required'']"
  using assms by (auto simp: init_def)

lemma sendMessage_missing_identifier:
  assumes "\<not> str_truthy (publicKey (getConfig w)) \<or> \<not> str_truthy (assistantId (getConfig w))"
  shows "sendMessage P w typed outcome = (w, [])
       \<or> sendMessage P w typed outcome = (w, [ConsoleError ''VAPI Widget: public-key is required''])
       \<or> sendMessage P w typed outcome = (w, [ConsoleError ''VAPI Widget: assistant-id is required''])"
  using assms by (auto simp: sendMessage_def sendMessage_begin_def Let_def)

lemma sendMessage_missing_logs:
  assumes "\<not> str_truthy (publicKey (getConfig w)) \<or> \<not> str_truthy (assistantId (getConfig w))"
    and "has_chat_input P (shadowRoot w)" and "trim typed \<noteq> []" and "\<not> isLoading w"
  shows "sendMessage P w typed outcome = (w, [ConsoleError ''VAPI Widget: public-key is required''])
       \<or> sendMessage P w typed outcome = (w, [ConsoleError ''VAPI Widget: assistant-id is required''])"
  using assms by (auto simp: sendMessage_def sendMessage_begin_def Let_def)

lemma text_of_or_else:
  "text_of (or_else x (Some d)) = (if str_truthy x then text_of x else d)"
  by (simp add: or_else_def)

lemma checkConsent_consentGiven:
  "consentGiven (checkConsent w st) =
     (if \<not> requireConsent (getConfig w) then True
      else if readable st then items st (text_of (localStorageKey (getConfig w))) = Some ''true''
      else False)"
  by (simp add: checkConsent_def getItem_def Let_def)

lemma connectedCallback_consentGiven:
  "consentGiven (connectedCallback w st) = consentGiven (checkConsent w st)"
  by (simp add: connectedCallback_def checkConsent_consentGiven)

lemma giveConsent_cases:
  "giveConsent w st =
     (if writable st
      then (render (w\<lparr>consentGiven := True\<rparr>),
            st\<lparr>items := (items st)(text_of (localStorageKey (getConfig w)) \<mapsto> ''true'')\<rparr>, [])
      else (render (w\<lparr>consentGiven := True\<rparr>), st,
            [ConsoleWarn ''Could not save consent to localStorage'']))"
  by (simp add: giveConsent_def setItem_def Let_def)

lemma same_key:
  "attrs w' ''local-storage-key'' = attrs w ''local-storage-key'' \<Longrightarrow>
   localStorageKey (getConfig w') = localStorageKey (getConfig w)"
  by (simp add: getConfig_localStorageKey getAttr_def)

text \<open>
  Claim C3. When either required identifier is absent (or empty), the loader's
  \<^verbatim>\<open>init\<close> logs one error and returns: it creates no element and loads no script.
  In the custom element, \<^verbatim>\<open>sendMessage\<close> then leaves the element as it is and issues
  no request and no event; where it gets as far as the check (there is an input box, the
  text is not blank, nothing is in flight) its one effect is the error it logs.
\<close>

theorem missing_identifier_aborts:
  "(\<not> str_truthy (a ''data-public-key'') \<or> \<not> str_truthy (a ''data-assistant-id'') \<longrightarrow>
      (init (loader_config_of a) script_loads =
         [LogError ''VAPI Custom Widget: data-public-key is required'']
       \<or> init (loader_config_of a) script_loads =
         [LogError ''VAPI Custom Widget: data-assistant-id is required''])
      \<and> filter is_create_element (init (loader_config_of a) script_loads) = []
      \<and> filter is_network_call (init (loader_config_of a) script_loads) = [])
   \<and> (\<not> str_truthy (attrs w ''public-key'') \<or> \<not> str_truthy (attrs w ''assistant-id'') \<longrightarrow>
      fst (sendMessage P w typed outcome) = w
      \<and> requests_of (snd (sendMessage P w typed outcome)) = []
      \<and> events_of (snd (sendMessage P w typed outcome)) = []
      \<and> (has_chat_input P (shadowRoot w) \<and> trim typed \<noteq> [] \<and> \<not> isLoading w \<longrightarrow>
           snd (sendMessage P w typed outcome) =
             [ConsoleError ''VAPI Widget: public-key is required'']
           \<or> snd (sendMessage P w typed outcome) =
             [ConsoleError ''VAPI Widget: assistant-id is required'']))"
proof (intro conjI impI)
  assume "\<not> str_truthy (a ''data-public-key'') \<or> \<not> str_truthy (a ''data-assistant-id'')"
  then have m: "ld_publicKey (loader_config_of a) = [] \<or> ld_assistantId (loader_config_of a) = []"
    by (simp add: loader_publicKey loader_assistantId data_attr_empty)
  from init_aborts [OF m, of script_loads]
  show "init (loader_config_of a) script_loads =
         [LogError ''VAPI Custom Widget: data-public-key is required'']
       \<or> init (loader_config_of a) script_loads =
         [LogError ''VAPI Custom Widget: data-assistant-id is required'']" .
  from init_aborts [OF m, of script_loads]
  show "filter is_create_element (init (loader_config_of a) script_loads) = []"
    by auto
  from init_aborts [OF m, of script_loads]
  show "filter is_network_call (init (loader_config_of a) script_loads) = []"
    by auto
next
  assume "\<not> str_truthy (attrs w ''public-key'') \<or> \<not> str_truthy (attrs w ''assistant-id'')"
  then have m: "\<not> str_truthy (publicKey (getConfig w)) \<or> \<not> str_truthy (assistantId (getConfig w))"
    by (simp add: getConfig_publicKey getConfig_assistantId getAttr_def str_truthy_or_else_None)
  from sendMessage_missing_identifier [OF m, of P typed outcome]
  show "fst (sendMessage P w typed outcome) = w"
    by auto
  from sendMessage_missing_identifier [OF m, of P typed outcome]
  show "requests_of (snd (sendMessage P w typed outcome)) = []"
    by auto
  from sendMessage_missing_identifier [OF m, of P typed outcome]
  show "events_of (snd (sendMessage P w typed outcome)) = []"
    by auto
  assume "has_chat_input P (shadowRoot w) \<and> trim typed \<noteq> [] \<and> \<not> isLoading w"
  with sendMessage_missing_logs [OF m, of P typed outcome]
  show "snd (sendMessage P w typed outcome) =
             [ConsoleError ''VAPI Widget: public-key is required'']
           \<or> snd (sendMessage P w typed outcome) =
             [ConsoleError ''VAPI Widget: assistant-id is required'']"
    by auto
qed

text \<open>A loader with the public key only and one with no attribute at all; an element
  that lacks its assistant id.\<close>

theorem missing_identifier_aborts_witness:
  "init (loader_config_of [''data-public-key'' \<mapsto> ''pk'']) True =
     [LogError ''VAPI Custom Widget: data-assistant-id is required'']
   \<and> init (loader_config_of Map.empty) True =
     [LogError ''VAPI Custom Widget: data-public-key is required'']
   \<and> fst (sendMessage reference_platform missing_widget ''hi'' (Responded 200 hello_stream Done)) =
       missing_widget
   \<and> snd (sendMessage reference_platform missing_widget ''hi'' (Responded 200 hello_stream Done)) =
       [ConsoleError ''VAPI Widget: assistant-id is required'']"
proof -
  have h1: "\<not> str_truthy ([''data-public-key'' \<mapsto> ''pk''] ''data-public-key'')
      \<or> \<not> str_truthy ([''data-public-key'' \<mapsto> ''pk''] ''data-assistant-id'')"
    by simp
  have h2: "\<not> str_truthy (attrs missing_widget ''public-key'')
      \<or> \<not> str_truthy (attrs missing_widget ''assistant-id'')"
    by code_simp
  have h3: "has_chat_input reference_platform (shadowRoot missing_widget) \<and> trim ''hi'' \<noteq> [] \<and> \<not> isLoading missing_widget"
    by code_simp
  have e1: "init (loader_config_of [''data-public-key'' \<mapsto> ''pk'']) True \<noteq>
     [LogError ''VAPI Custom Widget: data-public-key is required'']"
    by code_simp
  have e2: "init (loader_config_of Map.empty) True =
     [LogError ''VAPI Custom Widget: data-public-key is required'']"
    by code_simp
  have e3: "snd (sendMessage reference_platform missing_widget ''hi'' (Responded 200 hello_stream Done)) \<noteq>
       [ConsoleError ''VAPI Widget: public-key is required'']"
    by code_simp
  from missing_identifier_aborts [of "[''data-public-key'' \<mapsto> ''pk'']" True missing_widget
      reference_platform "''hi''" "Responded 200 hello_stream Done"] h1 h2 h3 e1 e2 e3
  show ?thesis by blast
qed

text \<open>
  Claim C4. \<^verbatim>\<open>checkConsent\<close>, as \<^verbatim>\<open>connectedCallback\<close> runs it: consent counts as
  given when it is not required; when it is required and storage can be read, exactly
  when the item under the configured key is the string \<^verbatim>\<open>true\<close>; and not when reading
  throws. The key is the attribute \<^verbatim>\<open>local-storage-key\<close>, or
  \<^verbatim>\<open>vapi_widget_consent\<close>; consent is required when the attribute
  \<^verbatim>\<open>require-consent\<close> is there and is not \<^verbatim>\<open>false\<close>.
\<close>

theorem consent_is_checked:
  "(\<not> requireConsent (getConfig w) \<longrightarrow>
      consentGiven (checkConsent w st) \<and> consentGiven (connectedCallback w st))
   \<and> (requireConsent (getConfig w) \<and> readable st \<longrightarrow>
      consentGiven (checkConsent w st) =
        (items st (text_of (localStorageKey (getConfig w))) = Some ''true'')
      \<and> consentGiven (connectedCallback w st) =
        (items st (text_of (localStorageKey (getConfig w))) = Some ''true''))
   \<and> (requireConsent (getConfig w) \<and> \<not> readable st \<longrightarrow>
      \<not> consentGiven (checkConsent w st) \<and> \<not> consentGiven (connectedCallback w st))
   \<and> text_of (localStorageKey (getConfig w)) =
       (if str_truthy (attrs w ''local-storage-key'') then text_of (attrs w ''local-storage-key'')
        else ''vapi_widget_consent'')
   \<and> requireConsent (getConfig w) =
       (attrs w ''require-consent'' \<noteq> None \<and> attrs w ''require-consent'' \<noteq> Some ''false'')"
  by (simp add: connectedCallback_consentGiven checkConsent_consentGiven
      getConfig_localStorageKey getConfig_requireConsent getAttr_def getBoolAttr_def text_of_or_else)

text \<open>Consent not required with storage blocked; required with nothing stored, with
  the grant stored, and with storage blocked.\<close>

theorem consent_is_checked_witness:
  "consentGiven (connectedCallback (constructor example_attrs :: int widget) blocked_storage)
   \<and> consentGiven (connectedCallback (constructor consent_attrs :: int widget) empty_storage) = False
   \<and> consentGiven (connectedCallback (constructor consent_attrs :: int widget) granted_storage)
   \<and> consentGiven (connectedCallback (constructor consent_attrs :: int widget) blocked_storage) = False"
proof -
  have n: "\<not> requireConsent (getConfig (constructor example_attrs :: int widget))"
    by code_simp
  have r: "requireConsent (getConfig (constructor consent_attrs :: int widget))"
    by code_simp
  have k: "text_of (localStorageKey (getConfig (constructor consent_attrs :: int widget))) =
      ''vapi_widget_consent''"
    by code_simp
  have s1: "readable empty_storage" "items empty_storage ''vapi_widget_consent'' \<noteq> Some ''true''"
    by code_simp code_simp
  have s2: "readable granted_storage" "items granted_storage ''vapi_widget_consent'' = Some ''true''"
    by code_simp code_simp
  have s3: "\<not> readable blocked_storage"
    by code_simp
  from consent_is_checked [of "constructor example_attrs :: int widget" blocked_storage]
    consent_is_checked [of "constructor consent_attrs :: int widget" empty_storage]
    consent_is_checked [of "constructor consent_attrs :: int widget" granted_storage]
    consent_is_checked [of "constructor consent_attrs :: int widget" blocked_storage]
    n r s1 s2 s3
  show ?thesis unfolding k by simp
qed

text \<open>
  Claim C5. \<^verbatim>\<open>giveConsent\<close> always sets \<^verbatim>\<open>consentGiven\<close>. When storage can be
  written it stores the string \<^verbatim>\<open>true\<close> under the configured key and changes nothing
  else; when the write throws, storage is as before, a warning is logged, and
  \<^verbatim>\<open>consentGiven\<close> is set all the same. After a write that succeeded, an element with
  the same key that reads the storage finds consent given.
\<close>

theorem consent_is_given:
  "consentGiven (fst (giveConsent w st))
   \<and> (writable st \<longrightarrow>
        fst (snd (giveConsent w st)) =
          st\<lparr>items := (items st)(text_of (localStorageKey (getConfig w)) \<mapsto> ''true'')\<rparr>
        \<and> snd (snd (giveConsent w st)) = [])
   \<and> (\<not> writable st \<longrightarrow>
        fst (snd (giveConsent w st)) = st
        \<and> snd (snd (giveConsent w st)) = [ConsoleWarn ''Could not save consent to localStorage''])
   \<and> (writable st \<and> readable st
        \<and> attrs w' ''local-storage-key'' = attrs w ''local-storage-key'' \<longrightarrow>
        consentGiven (checkConsent w' (fst (snd (giveConsent w st))))
        \<and> consentGiven (connectedCallback w' (fst (snd (giveConsent w st)))))"
proof (cases "writable st")
  case True
  then have g: "giveConsent w st =
      (render (w\<lparr>consentGiven := True\<rparr>),
       st\<lparr>items := (items st)(text_of (localStorageKey (getConfig w)) \<mapsto> ''true'')\<rparr>, [])"
    by (simp add: giveConsent_cases)
  have "consentGiven (checkConsent w'
      (st\<lparr>items := (items st)(text_of (localStorageKey (getConfig w)) \<mapsto> ''true'')\<rparr>))"
    if "readable st" and "attrs w' ''local-storage-key'' = attrs w ''local-storage-key''"
    using that(1) same_key [OF that(2)] by (simp add: checkConsent_consentGiven)
  then show ?thesis
    unfolding g using True by (simp add: connectedCallback_consentGiven)
next
  case False
  then have g: "giveConsent w st =
      (render (w\<lparr>consentGiven := True\<rparr>), st,
       [ConsoleWarn ''Could not save consent to localStorage''])"
    by (simp add: giveConsent_cases)
  show ?thesis
    unfolding g using False by simp
qed

text \<open>Granting on writable storage and reconnecting a new element; granting on
  blocked storage.\<close>

theorem consent_is_given_witness:
  "consentGiven (fst (giveConsent consent_widget empty_storage))
   \<and> items (fst (snd (giveConsent consent_widget empty_storage))) ''vapi_widget_consent'' = Some ''true''
   \<and> consentGiven (connectedCallback (constructor consent_attrs :: int widget)
        (fst (snd (giveConsent consent_widget empty_storage))))
   \<and> consentGiven (fst (giveConsent consent_widget blocked_storage))
   \<and> fst (snd (giveConsent consent_widget blocked_storage)) = blocked_storage
   \<and> snd (snd (giveConsent consent_widget blocked_storage)) =
       [ConsoleWarn ''Could not save consent to localStorage'']"
proof -
  have w: "writable empty_storage \<and> readable empty_storage
      \<and> attrs (constructor consent_attrs :: int widget) ''local-storage-key'' =
        attrs consent_widget ''local-storage-key''"
    by code_simp
  have b: "\<not> writable blocked_storage"
    by code_simp
  have k: "text_of (localStorageKey (getConfig consent_widget)) = ''vapi_widget_consent''"
    by code_simp
  note saved = consent_is_given [of consent_widget empty_storage "constructor consent_attrs :: int widget"]
  note failed = consent_is_given [of consent_widget blocked_storage consent_widget]
  have a1: "consentGiven (fst (giveConsent consent_widget empty_storage))"
    using saved by (rule conjunct1)
  have a2: "fst (snd (giveConsent consent_widget empty_storage)) =
      empty_storage\<lparr>items := (items empty_storage)(''vapi_widget_consent'' \<mapsto> ''true'')\<rparr>"
    using saved w unfolding k by blast
  have a3: "items (fst (snd (giveConsent consent_widget empty_storage))) ''vapi_widget_consent'' =
      Some ''true''"
    unfolding a2 by simp
  have a4: "consentGiven (connectedCallback (constructor consent_attrs :: int widget)
        (fst (snd (giveConsent consent_widget empty_storage))))"
    using saved w by blast
  have a5: "consentGiven (fst (giveConsent consent_widget blocked_storage))"
    using failed by (rule conjunct1)
  have a6: "fst (snd (giveConsent consent_widget blocked_storage)) = blocked_storage
      \<and> snd (snd (giveConsent consent_widget blocked_storage)) =
       [ConsoleWarn ''Could not save consent to localStorage'']"
    using failed b by blast
  from a1 a3 a4 a5 a6 show ?thesis by blast
qed

subsection \<open>Opening and closing\<close>

lemma toggleChat_isOpen:
  "isOpen (fst (toggleChat w state)) = (case state of Some s \<Rightarrow> s | None \<Rightarrow> \<not> isOpen w)"
  by (simp add: toggleChat_def Let_def)

lemma toggleChat_events:
  "events_of (snd (toggleChat w state)) =
     [event_for (case state of Some s \<Rightarrow> s | None \<Rightarrow> \<not> isOpen w)]"
  by (simp add: toggleChat_def Let_def event_for_def)

lemma toggles_events:
  "events_of (snd (toggles w states)) = map event_for (open_after (isOpen w) states)"
proof (induction states arbitrary: w)
  case Nil
  then show ?case by simp
next
  case (Cons state states)
  have "events_of (snd (toggles w (state # states))) =
      events_of (snd (toggleChat w state)) @ events_of (snd (toggles (fst (toggleChat w state)) states))"
    by (simp add: case_prod_beta events_of_append Let_def)
  then show ?case
    by (simp add: Cons.IH toggleChat_events toggleChat_isOpen Let_def)
qed

lemma event_for_inject: "event_for a = event_for b \<longleftrightarrow> a = b"
  by (simp add: event_for_def)

lemma no_repeat_tl: "no_repeat (x # xs) \<Longrightarrow> no_repeat xs"
  by (cases xs) auto

lemma flips_no_repeat:
  "flips b states \<Longrightarrow> no_repeat (map event_for (b # open_after b states))"
  by (induction states arbitrary: b) (auto simp: Let_def event_for_inject)

text \<open>
  Claim C7, as stated, fails: every call of \<^verbatim>\<open>toggleChat\<close> dispatches an event,
  also one that leaves the state as it is. Opening, closing and closing again dispatches
  \<^verbatim>\<open>chat-close\<close> twice.
\<close>

theorem repeated_close_counterexample:
  "events_of (snd (toggles (constructor example_attrs :: int widget) [None, Some False, Some False])) =
     [ChatOpen, ChatClose, ChatClose]
   \<and> \<not> no_repeat (events_of (snd (toggles (constructor example_attrs :: int widget)
        [None, Some False, Some False])))"
  by code_simp

text \<open>
  Claim C7, amended. Toggling a closed widget twice dispatches \<^verbatim>\<open>chat-open\<close> then
  \<^verbatim>\<open>chat-close\<close> and nothing else. Every call of \<^verbatim>\<open>toggleChat\<close> dispatches exactly
  one event, named for the state the call leaves the widget in. So a sequence of calls
  that each change the state never dispatches the same event twice in a row, and a call
  with the state the widget is already in dispatches the event of that state again.
\<close>

theorem toggle_dispatches_resulting_state:
  "(\<not> isOpen w \<longrightarrow> events_of (snd (toggles w [None, None])) = [ChatOpen, ChatClose])
   \<and> events_of (snd (toggles w states)) = map event_for (open_after (isOpen w) states)
   \<and> (flips (isOpen w) states \<longrightarrow> no_repeat (events_of (snd (toggles w states))))
   \<and> (isOpen w = s \<longrightarrow> events_of (snd (toggleChat w (Some s))) = [event_for s])"
proof -
  have "no_repeat (events_of (snd (toggles w states)))" if "flips (isOpen w) states"
    unfolding toggles_events using flips_no_repeat [OF that] by (auto dest: no_repeat_tl)
  moreover have "events_of (snd (toggles w [None, None])) = [ChatOpen, ChatClose]" if "\<not> isOpen w"
    unfolding toggles_events using that by (simp add: event_for_def)
  moreover have "events_of (snd (toggleChat w (Some s))) = [event_for s]"
    by (simp add: toggleChat_events)
  ultimately show ?thesis
    using toggles_events [of w states] by blast
qed

text \<open>Open and close; four calls that each change the state; closing a closed widget.\<close>

theorem toggle_dispatches_resulting_state_witness:
  "events_of (snd (toggles example_widget [None, None])) = [ChatOpen, ChatClose]
   \<and> events_of (snd (toggles example_widget [None, None, Some True, None])) =
       [ChatOpen, ChatClose, ChatOpen, ChatClose]
   \<and> no_repeat (events_of (snd (toggles example_widget [None, None, Some True, None])))
   \<and> events_of (snd (toggleChat example_widget (Some False))) = [ChatClose]"
proof -
  have c: "\<not> isOpen example_widget"
    by code_simp
  have f: "flips (isOpen example_widget) [None, None, Some True, None]"
    by code_simp
  have o: "map event_for (open_after (isOpen example_widget) [None, None, Some True, None]) =
      [ChatOpen, ChatClose, ChatOpen, ChatClose]"
    by code_simp
  have e: "event_for False = ChatClose"
    by code_simp
  note a = toggle_dispatches_resulting_state [of example_widget "[None, None, Some True, None]" False]
  have a1: "events_of (snd (toggles example_widget [None, None])) = [ChatOpen, ChatClose]"
    using a c by blast
  have a2: "events_of (snd (toggles example_widget [None, None, Some True, None])) =
       [ChatOpen, ChatClose, ChatOpen, ChatClose]"
    using a unfolding o by blast
  have a3: "no_repeat (events_of (snd (toggles example_widget [None, None, Some True, None])))"
    using a f by blast
  have a4: "events_of (snd (toggleChat example_widget (Some False))) = [ChatClose]"
    using a c unfolding e by blast
  from a1 a2 a3 a4 show ?thesis by blast
qed

subsection \<open>Consent before chat\<close>

text \<open>
  Claim C8 at a concrete run. An element is connected without \<^verbatim>\<open>require-consent\<close>
  and opened; the page then sets \<^verbatim>\<open>require-consent\<close>, and the element is connected
  again. \<^verbatim>\<open>connectedCallback\<close> renders while \<^verbatim>\<open>consentGiven\<close> is still true and
  only then runs \<^verbatim>\<open>checkConsent\<close>, which withdraws it and renders nothing. Consent is
  now required and not given, the chat area is still in the tree, and a send dispatches
  its \<^verbatim>\<open>message\<close> events although the consent action never ran.
\<close>

theorem stale_chat_area_sends_message:
  "requireConsent (getConfig stale_widget)
   \<and> consentGiven stale_widget = False
   \<and> has_chat_input reference_platform (shadowRoot stale_widget)
   \<and> events_of (snd (run reference_platform
        (stale_run @ [SendMessage ''hi'' (Responded 200 hello_stream Done)])
        (constructor example_attrs, empty_storage))) =
       [ChatOpen, MessageEvent user ''hi'', MessageEvent assistant ''Hello'']"
  by code_simp

end
